theory Spec2Isabelle
  imports Complex_Main "HOL-Library.AList"
begin

section \<open>JavaScript numbers\<close>

text \<open>
  The source computes with IEEE doubles. The model computes with the real numbers and adds
  one value, \<open>NaN\<close>, for the result of an operation that has no real value (\<open>0 / 0\<close>,
  \<open>x % 0\<close>, a square root of a negative number). Rounding is not modelled: every statement
  below is about the formulas the code evaluates, read over the reals.
\<close>

datatype jsnum = Num real | NaN

text \<open>\<open>a % b\<close>: the remainder has the sign of the dividend (the quotient is truncated
  towards zero), and \<open>a % 0\<close> is \<open>NaN\<close>.\<close>

definition trunc :: "real \<Rightarrow> int" where
  "trunc x = (if 0 \<le> x then \<lfloor>x\<rfloor> else \<lceil>x\<rceil>)"

definition jsmod :: "real \<Rightarrow> real \<Rightarrow> jsnum" where
  "jsmod a b = (if b = 0 then NaN else Num (a - b * of_int (trunc (a / b))))"

text \<open>A parameter with a default value: \<open>None\<close> is the argument left out (or passed as
  \<open>undefined\<close>).\<close>

definition orDefault :: "'a option \<Rightarrow> 'a \<Rightarrow> 'a" where
  "orDefault v d = (case v of None \<Rightarrow> d | Some x \<Rightarrow> x)"

section \<open>Animation utilities\<close>


text \<open>
  \<^verbatim>\<open>
  const createExplosionAnimation = (baseRadius, maxRadius, duration = 2000) => {
    return (timestamp) => {
      const elapsed = timestamp % duration;
      const progress = elapsed / duration;
      const easeOut = 1 - Math.pow(1 - progress, 3);
      return baseRadius + (maxRadius - baseRadius) * easeOut;
    };
  };
  \<close>
  A zero \<open>duration\<close> makes \<open>elapsed\<close> \<open>NaN\<close>, and \<open>NaN\<close> goes through every later
  operation.
\<close>

definition createExplosionAnimation :: "real \<Rightarrow> real \<Rightarrow> real option \<Rightarrow> real \<Rightarrow> jsnum" where
  "createExplosionAnimation baseRadius maxRadius duration' timestamp =
     (let duration = orDefault duration' 2000
      in case jsmod timestamp duration of
           NaN \<Rightarrow> NaN
         | Num elapsed \<Rightarrow>
             (let progress = elapsed / duration;
                  easeOut = 1 - (1 - progress) ^ 3
              in Num (baseRadius + (maxRadius - baseRadius) * easeOut)))"

section \<open>JavaScript arithmetic that can leave the reals\<close>

text \<open>
  \<open>a / b\<close> with a zero divisor is \<open>NaN\<close> for \<open>a = 0\<close> and an infinity otherwise. The model
  has the single value \<open>NaN\<close> for "not a finite number" and gives it to both; the results
  below meet a zero divisor only as \<open>0 / 0\<close>. \<open>NaN\<close> as an operand makes the result
  \<open>NaN\<close>.
\<close>

fun jdiv :: "jsnum \<Rightarrow> jsnum \<Rightarrow> jsnum" where
  "jdiv (Num a) (Num b) = (if b = 0 then NaN else Num (a / b))"
| "jdiv _ _ = NaN"

fun lift1 :: "(real \<Rightarrow> real) \<Rightarrow> jsnum \<Rightarrow> jsnum" where
  "lift1 f (Num a) = Num (f a)"
| "lift1 f NaN = NaN"

fun lift2 :: "(real \<Rightarrow> real \<Rightarrow> real) \<Rightarrow> jsnum \<Rightarrow> jsnum \<Rightarrow> jsnum" where
  "lift2 f (Num a) (Num b) = Num (f a b)"
| "lift2 f _ _ = NaN"

definition jadd :: "jsnum \<Rightarrow> jsnum \<Rightarrow> jsnum" where
  "jadd = lift2 (+)"

definition jsub :: "jsnum \<Rightarrow> jsnum \<Rightarrow> jsnum" where
  "jsub = lift2 (-)"

definition jmul :: "jsnum \<Rightarrow> jsnum \<Rightarrow> jsnum" where
  "jmul = lift2 (*)"

definition jsin :: "jsnum \<Rightarrow> jsnum" where
  "jsin = lift1 sin"

text \<open>\<open>Math.sqrt\<close>, \<open>Math.asin\<close> and \<open>Math.acos\<close> are \<open>NaN\<close> outside their domains.\<close>

fun jsqrt :: "jsnum \<Rightarrow> jsnum" where
  "jsqrt (Num a) = (if a < 0 then NaN else Num (sqrt a))"
| "jsqrt NaN = NaN"

fun jasin :: "jsnum \<Rightarrow> jsnum" where
  "jasin (Num a) = (if a < -1 \<or> 1 < a then NaN else Num (arcsin a))"
| "jasin NaN = NaN"

fun jacos :: "jsnum \<Rightarrow> jsnum" where
  "jacos (Num a) = (if a < -1 \<or> 1 < a then NaN else Num (arccos a))"
| "jacos NaN = NaN"

text \<open>\<open>Math.atan2(y, x)\<close>: the angle of the point \<open>(x, y)\<close>, in \<open>(-\<pi>, \<pi>]\<close>, and \<open>0\<close> at the
  origin. (The reals have one zero; the sign of a floating-point zero is not modelled.)\<close>

definition atan2 :: "real \<Rightarrow> real \<Rightarrow> real" where
  "atan2 y x =
     (if 0 < x then arctan (y / x)
      else if x < 0 then (if 0 \<le> y then arctan (y / x) + pi else arctan (y / x) - pi)
      else if 0 < y then pi / 2
      else if y < 0 then - (pi / 2)
      else 0)"

definition jatan2 :: "jsnum \<Rightarrow> jsnum \<Rightarrow> jsnum" where
  "jatan2 = lift2 atan2"

section \<open>Globe utilities\<close>

text \<open>
  \<open>THREE.Vector3\<close> and \<open>THREE.QuadraticBezierCurve3\<close> are classes of the three.js library.
  The model has the methods the utilities call, as the library defines them:
  \<open>normalize()\<close> is \<open>divideScalar(length() || 1)\<close>, \<open>divideScalar(s)\<close> is
  \<open>multiplyScalar(1 / s)\<close>, and the point of a quadratic Bezier curve at \<open>t\<close> is
  \<open>(1-t)\<^sup>2 v0 + 2 (1-t) t v1 + t\<^sup>2 v2\<close> in each coordinate.
\<close>

datatype Vector3 = Vector3 (vx: real) (vy: real) (vz: real)

definition add3 :: "Vector3 \<Rightarrow> Vector3 \<Rightarrow> Vector3" where
  "add3 a b = Vector3 (vx a + vx b) (vy a + vy b) (vz a + vz b)"

definition multiplyScalar :: "Vector3 \<Rightarrow> real \<Rightarrow> Vector3" where
  "multiplyScalar a s = Vector3 (vx a * s) (vy a * s) (vz a * s)"

definition length3 :: "Vector3 \<Rightarrow> real" where
  "length3 a = sqrt (vx a * vx a + vy a * vy a + vz a * vz a)"

definition normalize3 :: "Vector3 \<Rightarrow> Vector3" where
  "normalize3 a = multiplyScalar a (1 / (if length3 a = 0 then 1 else length3 a))"

datatype QuadraticBezierCurve3 = QuadraticBezierCurve3 (v0: Vector3) (v1: Vector3) (v2: Vector3)

definition QuadraticBezier :: "real \<Rightarrow> real \<Rightarrow> real \<Rightarrow> real \<Rightarrow> real" where
  "QuadraticBezier t p0 p1 p2 = (1 - t) * (1 - t) * p0 + 2 * (1 - t) * t * p1 + t * t * p2"

definition getPoint :: "QuadraticBezierCurve3 \<Rightarrow> real \<Rightarrow> Vector3" where
  "getPoint c t = Vector3 (QuadraticBezier t (vx (v0 c)) (vx (v1 c)) (vx (v2 c)))
                          (QuadraticBezier t (vy (v0 c)) (vy (v1 c)) (vy (v2 c)))
                          (QuadraticBezier t (vz (v0 c)) (vz (v1 c)) (vz (v2 c)))"

definition GLOBE_CONFIG_radius :: real where
  "GLOBE_CONFIG_radius = 5"

text \<open>
  \<^verbatim>\<open>
  export function latLngToVector3(lat, lng, radius = GLOBE_CONFIG.radius) {
    const phi = (90 - lat) * (Math.PI / 180);
    const theta = (lng + 180) * (Math.PI / 180);
    const x = -(radius * Math.sin(phi) * Math.cos(theta));
    const z = radius * Math.sin(phi) * Math.sin(theta);
    const y = radius * Math.cos(phi);
    return new THREE.Vector3(x, y, z);
  }
  \<close>
\<close>

definition latLngToVector3 :: "real \<Rightarrow> real \<Rightarrow> real option \<Rightarrow> Vector3" where
  "latLngToVector3 lat lng radius' =
     (let radius = orDefault radius' GLOBE_CONFIG_radius;
          phi = (90 - lat) * (pi / 180);
          theta = (lng + 180) * (pi / 180);
          x = - (radius * sin phi * cos theta);
          z = radius * sin phi * sin theta;
          y = radius * cos phi
      in Vector3 x y z)"

text \<open>
  \<^verbatim>\<open>
  export function vector3ToLatLng(vector, radius = GLOBE_CONFIG.radius) {
    const normalizedVector = vector.clone().normalize().multiplyScalar(radius);
    const lat = 90 - (Math.acos(normalizedVector.y / radius) * 180 / Math.PI);
    const lng = ((Math.atan2(normalizedVector.z, -normalizedVector.x)) * 180 / Math.PI) - 180;
    return { lat, lng };
  }
  \<close>
\<close>

record 'n latLng =
  lat :: 'n
  lng :: 'n

definition vector3ToLatLng :: "Vector3 \<Rightarrow> real option \<Rightarrow> jsnum latLng" where
  "vector3ToLatLng vector radius' =
     (let radius = orDefault radius' GLOBE_CONFIG_radius;
          normalizedVector = multiplyScalar (normalize3 vector) radius;
          lat = jsub (Num 90)
                  (jdiv (jmul (jacos (jdiv (Num (vy normalizedVector)) (Num radius))) (Num 180))
                        (Num pi));
          lng = atan2 (vz normalizedVector) (- vx normalizedVector) * 180 / pi - 180
      in \<lparr>lat = lat, lng = Num lng\<rparr>)"

text \<open>
  \<^verbatim>\<open>
  export function createArcCurve(startLatLng, endLatLng, arcHeight = 2) {
    const startVector = latLngToVector3(startLatLng.lat, startLatLng.lng);
    const endVector = latLngToVector3(endLatLng.lat, endLatLng.lng);
    const midVector = startVector.clone().add(endVector).multiplyScalar(0.5);
    midVector.normalize().multiplyScalar(GLOBE_CONFIG.radius + arcHeight);
    const curve = new THREE.QuadraticBezierCurve3(startVector, midVector, endVector);
    return curve;
  }
  \<close>
\<close>

definition createArcCurve :: "real latLng \<Rightarrow> real latLng \<Rightarrow> real option \<Rightarrow> QuadraticBezierCurve3" where
  "createArcCurve startLatLng endLatLng arcHeight' =
     (let arcHeight = orDefault arcHeight' 2;
          startVector = latLngToVector3 (lat startLatLng) (lng startLatLng) None;
          endVector = latLngToVector3 (lat endLatLng) (lng endLatLng) None;
          midVector = multiplyScalar (add3 startVector endVector) 0.5;
          midVector = multiplyScalar (normalize3 midVector) (GLOBE_CONFIG_radius + arcHeight)
      in QuadraticBezierCurve3 startVector midVector endVector)"

section \<open>Geocoding utilities\<close>

record 'n coordinate =
  latitude :: 'n
  longitude :: 'n

text \<open>
  \<^verbatim>\<open>
  isValidCoordinate(lat, lng) {
    return (typeof lat === 'number' && typeof lng === 'number' &&
            lat >= -90 && lat <= 90 && lng >= -180 && lng <= 180);
  }
  \<close>
\<close>

definition isValidCoordinate :: "real \<Rightarrow> real \<Rightarrow> bool" where
  "isValidCoordinate la lo \<longleftrightarrow> la \<ge> -90 \<and> la \<le> 90 \<and> lo \<ge> -180 \<and> lo \<le> 180"

text \<open>
  \<^verbatim>\<open>
  export function getIntermediatePoints(start, end, numPoints = 10) {
    if (!validation.isValidCoordinate(start.latitude, start.longitude) ||
        !validation.isValidCoordinate(end.latitude, end.longitude)) {
      throw new Error('Invalid coordinates provided');
    }
    const points = [];
    const lat1 = start.latitude * Math.PI / 180;
    const lng1 = start.longitude * Math.PI / 180;
    const lat2 = end.latitude * Math.PI / 180;
    const lng2 = end.longitude * Math.PI / 180;
    const d = 2 * Math.asin(Math.sqrt(
      Math.pow(Math.sin((lat1 - lat2) / 2), 2) +
      Math.cos(lat1) * Math.cos(lat2) * Math.pow(Math.sin((lng1 - lng2) / 2), 2)));
    for (let i = 0; i <= numPoints; i++) {
      const f = i / numPoints;
      const a = Math.sin((1 - f) * d) / Math.sin(d);
      const b = Math.sin(f * d) / Math.sin(d);
      const x = a * Math.cos(lat1) * Math.cos(lng1) + b * Math.cos(lat2) * Math.cos(lng2);
      const y = a * Math.cos(lat1) * Math.sin(lng1) + b * Math.cos(lat2) * Math.sin(lng2);
      const z = a * Math.sin(lat1) + b * Math.sin(lat2);
      const lat = Math.atan2(z, Math.sqrt(x * x + y * y));
      const lng = Math.atan2(y, x);
      points.push({ latitude: lat * 180 / Math.PI, longitude: lng * 180 / Math.PI });
    }
    return points;
  }
  \<close>
  \<open>numPoints\<close> is a count, a natural number in the model.
\<close>

definition intermediatePoint :: "real \<Rightarrow> real \<Rightarrow> real \<Rightarrow> real \<Rightarrow> jsnum \<Rightarrow> nat \<Rightarrow> nat
    \<Rightarrow> jsnum coordinate" where
  "intermediatePoint lat1 lng1 lat2 lng2 d numPoints i =
     (let f = jdiv (Num (real i)) (Num (real numPoints));
          a = jdiv (jsin (jmul (jsub (Num 1) f) d)) (jsin d);
          b = jdiv (jsin (jmul f d)) (jsin d);
          x = jadd (jmul (jmul a (Num (cos lat1))) (Num (cos lng1)))
                   (jmul (jmul b (Num (cos lat2))) (Num (cos lng2)));
          y = jadd (jmul (jmul a (Num (cos lat1))) (Num (sin lng1)))
                   (jmul (jmul b (Num (cos lat2))) (Num (sin lng2)));
          z = jadd (jmul a (Num (sin lat1))) (jmul b (Num (sin lat2)));
          la = jatan2 z (jsqrt (jadd (jmul x x) (jmul y y)));
          lo = jatan2 y x
      in \<lparr>latitude = jdiv (jmul la (Num 180)) (Num pi),
          longitude = jdiv (jmul lo (Num 180)) (Num pi)\<rparr>)"

definition getIntermediatePoints :: "real coordinate \<Rightarrow> real coordinate \<Rightarrow> nat option
    \<Rightarrow> string + jsnum coordinate list" where
  "getIntermediatePoints start end' numPoints' =
     (if \<not> isValidCoordinate (latitude start) (longitude start)
         \<or> \<not> isValidCoordinate (latitude end') (longitude end')
      then Inl ''Invalid coordinates provided''
      else
        (let numPoints = orDefault numPoints' 10;
             lat1 = latitude start * pi / 180;
             lng1 = longitude start * pi / 180;
             lat2 = latitude end' * pi / 180;
             lng2 = longitude end' * pi / 180;
             d = jmul (Num 2) (jasin (jsqrt (Num (
                   (sin ((lat1 - lat2) / 2)) ^ 2
                   + cos lat1 * cos lat2 * (sin ((lng1 - lng2) / 2)) ^ 2))))
         in Inr (map (intermediatePoint lat1 lng1 lat2 lng2 d numPoints) [0 ..< Suc numPoints])))"

section \<open>JavaScript values\<close>

text \<open>
  Untyped values, as they occur in \<open>data\<close> payloads and as the values of option keys.
\<close>

datatype jsval = JUndefined | JNull | JBool bool | JNum real | JStr string
  | JArr "jsval list" | JObj "(string \<times> jsval) list"

text \<open>
  A typed position that may also hold \<open>undefined\<close> (a property left out) or \<open>null\<close>:
  an instruction, its \<open>type\<close>, its \<open>id\<close>, its \<open>options\<close>.
\<close>

datatype 'a js = Undefined | Null | Val 'a

text \<open>An options object: its own keys and their values. The spread
  \<open>{ ...a, ...b }\<close> of two of them is \<open>a ++ b\<close>.\<close>

type_synonym options = "string \<rightharpoonup> jsval"

text \<open>Destructuring with a default, \<open>const { k = d } = options\<close>: the default is taken
  when the key is missing or holds \<open>undefined\<close>.\<close>

definition pick :: "options \<Rightarrow> string \<Rightarrow> jsval \<Rightarrow> jsval" where
  "pick opts k d = (case opts k of None \<Rightarrow> d | Some JUndefined \<Rightarrow> d | Some v \<Rightarrow> v)"

text \<open>A function either returns or throws. Everything thrown in the modelled code is a
  \<open>TypeError\<close>; the model keeps its message (the wording is the engine's).\<close>

datatype 'a outcome = Returned 'a | Thrown string

text \<open>A string inside a template literal: \<open>`${v}`\<close>.\<close>

fun templ :: "string js \<Rightarrow> string" where
  "templ Undefined = ''undefined''"
| "templ Null = ''null''"
| "templ (Val s) = s"

text \<open>A non-negative integer inside a template literal: its decimal digits.\<close>

definition digits :: string where
  "digits = ''0123456789''"

function show_nat :: "nat \<Rightarrow> string" where
  "show_nat n = (if n < 10 then [digits ! n] else show_nat (n div 10) @ [digits ! (n mod 10)])"
  by pat_completeness auto
termination
  by (relation "measure (\<lambda>n. n)") auto

declare show_nat.simps [simp del]

section \<open>Layer generators\<close>

text \<open>
  The deck.gl layer objects are the library's; the model keeps the props the generators
  pass to their constructors. The accessors \<open>getPosition\<close>, \<open>getSourcePosition\<close> and
  \<open>getTargetPosition\<close> are closures that run only when the layer is drawn; creating a
  layer does not call them.
\<close>

record scatterplotProps =
  sp_id :: string
  sp_data :: jsval
  sp_height :: jsval
  sp_baseRadius :: jsval
  sp_pulseIntensity :: jsval
  sp_pulseSpeed :: jsval
  sp_getFillColor :: jsval
  sp_getLineColor :: jsval
  sp_lineWidthMinPixels :: jsval
  sp_pickable :: jsval

record arcProps =
  arc_id :: string
  arc_data :: jsval
  arc_getSourceColor :: jsval
  arc_getTargetColor :: jsval
  arc_strokeWidth :: jsval
  arc_pickable :: jsval
  arc_opacity :: jsval

datatype layer = ScatterplotLayer scatterplotProps | ArcLayer arcProps

definition rgba :: "real \<Rightarrow> real \<Rightarrow> real \<Rightarrow> real \<Rightarrow> jsval" where
  "rgba r g b a = JArr [JNum r, JNum g, JNum b, JNum a]"

text \<open>
  \<^verbatim>\<open>
  static createPulsingDotLayer(id, data, options = {}) {
    const {
      baseRadius = 10000, pulseIntensity = 0.3, pulseSpeed = 2,
      color = [255, 0, 0, 180], strokeColor = [255, 255, 255, 255],
      strokeWidth = 1, height = 50000, pickable = true
    } = options;
    return new ScatterplotLayer({
      id: `pulsing-dot-${id}`, data,
      getPosition: d => [d.longitude || d.lng || 0, d.latitude || d.lat || 0, height],
      getRadius: ({timestamp}) => baseRadius * (1 + pulseIntensity *
                                   Math.sin((timestamp || 0) * 0.002 * pulseSpeed)),
      getFillColor: color, stroked: true, getLineColor: strokeColor,
      lineWidthMinPixels: strokeWidth, pickable, opacity: 1, filled: true, ...
    });
  }
  \<close>
  Destructuring \<open>null\<close> throws a \<open>TypeError\<close>; the parameter default covers only
  \<open>undefined\<close>.
\<close>

definition createPulsingDotLayer :: "string \<Rightarrow> jsval \<Rightarrow> options js \<Rightarrow> layer outcome" where
  "createPulsingDotLayer lid dat opts' =
     (case (case opts' of Undefined \<Rightarrow> Val Map.empty | v \<Rightarrow> v) of
        Val opts \<Rightarrow>
          Returned (ScatterplotLayer \<lparr>
            sp_id = ''pulsing-dot-'' @ lid,
            sp_data = dat,
            sp_height = pick opts ''height'' (JNum 50000),
            sp_baseRadius = pick opts ''baseRadius'' (JNum 10000),
            sp_pulseIntensity = pick opts ''pulseIntensity'' (JNum 0.3),
            sp_pulseSpeed = pick opts ''pulseSpeed'' (JNum 2),
            sp_getFillColor = pick opts ''color'' (rgba 255 0 0 180),
            sp_getLineColor = pick opts ''strokeColor'' (rgba 255 255 255 255),
            sp_lineWidthMinPixels = pick opts ''strokeWidth'' (JNum 1),
            sp_pickable = pick opts ''pickable'' (JBool True) \<rparr>)
      | _ \<Rightarrow> Thrown ''Cannot destructure 'options' as it is null.'')"

text \<open>
  The \<open>getRadius\<close> accessor of a pulsing dot, called with the layer's \<open>timestamp\<close> prop
  (\<open>None\<close>: not set yet). \<open>timestamp || 0\<close> is the timestamp itself, \<open>0\<close> when it is
  \<open>undefined\<close>. The result is \<open>None\<close> where the captured options are not numbers (JavaScript
  would coerce them; the model stops there) and for a layer that has no such accessor.
\<close>

fun getRadius :: "layer \<Rightarrow> real option \<Rightarrow> real option" where
  "getRadius (ScatterplotLayer p) timestamp =
     (case (sp_baseRadius p, sp_pulseIntensity p, sp_pulseSpeed p) of
        (JNum baseRadius, JNum pulseIntensity, JNum pulseSpeed) \<Rightarrow>
          Some (baseRadius * (1 + pulseIntensity * sin (orDefault timestamp 0 * 0.002 * pulseSpeed)))
      | _ \<Rightarrow> None)"
| "getRadius (ArcLayer p) timestamp = None"

text \<open>
  \<^verbatim>\<open>
  static createArcLayer(id, data, options = {}) {
    const { strokeWidth = 4, sourceColor = [255, 0, 0, 120],
            targetColor = [255, 140, 0, 120], opacity = 0.7, pickable = true } = options;
    return new ArcLayer({ id: `arc-${id}`, data, getSourcePosition: ..., getTargetPosition: ...,
      getSourceColor: sourceColor, getTargetColor: targetColor,
      strokeWidth, pickable, greatCircle: true, opacity });
  }
  \<close>
\<close>

definition createArcLayer :: "string \<Rightarrow> jsval \<Rightarrow> options js \<Rightarrow> layer outcome" where
  "createArcLayer lid dat opts' =
     (case (case opts' of Undefined \<Rightarrow> Val Map.empty | v \<Rightarrow> v) of
        Val opts \<Rightarrow>
          Returned (ArcLayer \<lparr>
            arc_id = ''arc-'' @ lid,
            arc_data = dat,
            arc_getSourceColor = pick opts ''sourceColor'' (rgba 255 0 0 120),
            arc_getTargetColor = pick opts ''targetColor'' (rgba 255 140 0 120),
            arc_strokeWidth = pick opts ''strokeWidth'' (JNum 4),
            arc_pickable = pick opts ''pickable'' (JBool True),
            arc_opacity = pick opts ''opacity'' (JNum 0.7) \<rparr>)
      | _ \<Rightarrow> Thrown ''Cannot destructure 'options' as it is null.'')"

text \<open>
  A deck.gl layer has no method \<open>setProps\<close> (it is a method of \<open>Deck\<close>; the animation loop
  of the same file tests \<open>typeof layer.setProps === 'function'\<close> before it calls it). A call
  \<open>layer.setProps(...)\<close> on a \<open>ScatterplotLayer\<close> or an \<open>ArcLayer\<close> throws a \<open>TypeError\<close>
  and leaves the layer as it is.
\<close>

definition setPropsMissing :: string where
  "setPropsMissing = ''layerInfo.layer.setProps is not a function''"

text \<open>
  \<open>LayerGenerators\<close> has the two static methods above and no other. A call of a method it
  does not have, \<open>LayerGenerators.createExplosionLayer(layerId, data, options)\<close>, throws a
  \<open>TypeError\<close>.
\<close>

definition notAFunction :: "string \<Rightarrow> string" where
  "notAFunction name = ''LayerGenerators.'' @ name @ '' is not a function''"

section \<open>PlotManager\<close>

record eventInstruction =
  i_type :: "string js"
  i_data :: jsval
  i_options :: "options js"
  i_id :: "string js"

text \<open>The record the manager stores for a layer:
  \<open>{ layer, type, data, options, createdAt }\<close>.\<close>

record layerInfo =
  layer :: layer
  type :: "string js"
  data :: jsval
  options :: options
  createdAt :: nat

text \<open>
  \<open>layers\<close> is a JavaScript \<open>Map\<close>: keys in insertion order, \<open>set\<close> on a key that is
  present replaces its value in place (\<open>AList.update\<close>), \<open>delete\<close> removes it
  (\<open>AList.delete\<close>). \<open>layerCounter\<close> is a number that only ever holds a non-negative
  integer; the model counts with \<open>nat\<close> (a double is exact up to \<open>2^53\<close>).
  \<open>generatedIds\<close> is not a field of the class: it is a history variable that records, in
  order, every id \<open>generateLayerId\<close> has returned.
\<close>

record plotManager =
  layers :: "(string \<times> layerInfo) list"
  layerCounter :: nat
  animationFrameId :: "nat option"
  lastTimestamp :: real
  timestamp :: real
  generatedIds :: "string list"

definition "constructor" :: plotManager where
  "constructor = \<lparr> layers = [], layerCounter = 0, animationFrameId = None,
                    lastTimestamp = 0, timestamp = 0, generatedIds = [] \<rparr>"

text \<open>
  \<^verbatim>\<open>
  generateLayerId(type) { return `${type}-${++this.layerCounter}`; }
  \<close>
\<close>

definition generateLayerId :: "string js \<Rightarrow> plotManager \<Rightarrow> string \<times> plotManager" where
  "generateLayerId ty pm =
     (let n = layerCounter pm + 1;
          newId = templ ty @ ''-'' @ show_nat n
      in (newId, pm\<lparr>layerCounter := n, generatedIds := generatedIds pm @ [newId]\<rparr>))"

text \<open>The statement \<open>this.layers.set(layerId, { layer, type, data, options, createdAt })\<close>
  of \<open>addLayer\<close>.\<close>

definition store :: "string \<Rightarrow> layer \<Rightarrow> string js \<Rightarrow> jsval \<Rightarrow> options \<Rightarrow> nat
    \<Rightarrow> plotManager \<Rightarrow> plotManager" where
  "store layerId l ty dat opts now pm =
     pm\<lparr>layers := AList.update layerId
            \<lparr>layer = l, type = ty, data = dat, options = opts, createdAt = now\<rparr> (layers pm)\<rparr>"

text \<open>
  \<^verbatim>\<open>
  addLayer(eventInstruction) {
    const { type, data, options = {}, id = null, visualType = 'dot' } = eventInstruction;
    const layerId = id || this.generateLayerId(type);
    let layer;
    switch (type) {
      case 'pulsing_dot':
        layer = LayerGenerators.createPulsingDotLayer(layerId, data, options); break;
      case 'animated_arc':
        layer = LayerGenerators.createArcLayer(layerId, data, options); break;
      case 'explosion':
        layer = LayerGenerators.createExplosionLayer(layerId, data, options); break;
      case 'glowing_border':
        layer = LayerGenerators.createGlowingBorderLayer(layerId, data, options); break;
      case 'directional_arrow':
        layer = LayerGenerators.createDirectionalArrowLayer(layerId, data, options); break;
      case 'event_marker':
        layer = LayerGenerators.createEventMarkerLayer(layerId, data, options); break;
      case 'area_highlight':
        layer = LayerGenerators.createAreaHighlightLayer(layerId, data, options); break;
      default:
        console.warn(`Unknown layer type: ${type}`);
        return null;
    }
    this.layers.set(layerId, { layer, type, data, options, createdAt: Date.now() });
    return layerId;
  }
  \<close>
  \<open>now\<close> is what \<open>Date.now()\<close> returns. The result is \<open>Returned (Some layerId)\<close>,
  \<open>Returned None\<close> for \<open>null\<close>, or \<open>Thrown\<close>; the manager returned with \<open>Thrown\<close> is the
  state the exception leaves behind (the counter may have moved). Destructuring
  \<open>undefined\<close> or \<open>null\<close> throws. In \<open>id || this.generateLayerId(type)\<close> a string is truthy
  unless it is empty, \<open>undefined\<close> and \<open>null\<close> are falsy. \<open>finish\<close> is what follows the call of
  a generator: the exception goes on if it threw, the record is stored and the id returned
  if it returned.
\<close>

definition finish :: "string \<Rightarrow> string js \<Rightarrow> jsval \<Rightarrow> options js \<Rightarrow> nat \<Rightarrow> plotManager
    \<Rightarrow> layer outcome \<Rightarrow> string option outcome \<times> plotManager" where
  "finish layerId ty dat opts now pm created =
     (case created of
        Thrown e \<Rightarrow> (Thrown e, pm)
      | Returned l \<Rightarrow>
          (Returned (Some layerId),
           store layerId l ty dat (case opts of Val ob \<Rightarrow> ob | _ \<Rightarrow> Map.empty) now pm))"

definition addLayer :: "eventInstruction js \<Rightarrow> nat \<Rightarrow> plotManager
    \<Rightarrow> string option outcome \<times> plotManager" where
  "addLayer eventInstruction now pm =
     (case eventInstruction of
        Val i \<Rightarrow>
          (let ty = i_type i;
               dat = i_data i;
               opts = (case i_options i of Undefined \<Rightarrow> Val Map.empty | v \<Rightarrow> v);
               (layerId, pm1) = (case i_id i of
                                   Val s \<Rightarrow> if s \<noteq> [] then (s, pm) else generateLayerId ty pm
                                 | _ \<Rightarrow> generateLayerId ty pm)
           in if ty = Val ''pulsing_dot'' then
                finish layerId ty dat opts now pm1 (createPulsingDotLayer layerId dat opts)
              else if ty = Val ''animated_arc'' then
                finish layerId ty dat opts now pm1 (createArcLayer layerId dat opts)
              else if ty = Val ''explosion'' then
                (Thrown (notAFunction ''createExplosionLayer''), pm1)
              else if ty = Val ''glowing_border'' then
                (Thrown (notAFunction ''createGlowingBorderLayer''), pm1)
              else if ty = Val ''directional_arrow'' then
                (Thrown (notAFunction ''createDirectionalArrowLayer''), pm1)
              else if ty = Val ''event_marker'' then
                (Thrown (notAFunction ''createEventMarkerLayer''), pm1)
              else if ty = Val ''area_highlight'' then
                (Thrown (notAFunction ''createAreaHighlightLayer''), pm1)
              else (Returned None, pm1))
      | _ \<Rightarrow> (Thrown ''Cannot destructure 'eventInstruction' as it is undefined or null.'', pm))"

text \<open>
  \<^verbatim>\<open>
  removeLayer(layerId) { return this.layers.delete(layerId); }
  \<close>
\<close>

definition removeLayer :: "string \<Rightarrow> plotManager \<Rightarrow> bool \<times> plotManager" where
  "removeLayer layerId pm =
     (layerId \<in> fst ` set (layers pm), pm\<lparr>layers := AList.delete layerId (layers pm)\<rparr>)"

text \<open>
  \<^verbatim>\<open>
  removeLayersByType(type) {
    const toRemove = [];
    for (const [id, layerInfo] of this.layers) {
      if (layerInfo.type === type) { toRemove.push(id); }
    }
    toRemove.forEach(id => this.layers.delete(id));
    return toRemove.length;
  }
  \<close>
\<close>

definition removeLayersByType :: "string js \<Rightarrow> plotManager \<Rightarrow> nat \<times> plotManager" where
  "removeLayersByType ty pm =
     (let toRemove = map fst (filter (\<lambda>(k, layerInfo). type layerInfo = ty) (layers pm))
      in (length toRemove, pm\<lparr>layers := fold AList.delete toRemove (layers pm)\<rparr>))"

text \<open>
  \<^verbatim>\<open>
  updateLayerData(layerId, newData) {
    const layerInfo = this.layers.get(layerId);
    if (layerInfo) {
      layerInfo.data = newData;
      layerInfo.layer.setProps({ data: newData });
      return true;
    }
    return false;
  }
  \<close>
  The stored record is changed in place: \<open>data\<close> is written first. The call of
  \<open>setProps\<close> on the stored layer then throws, so for a stored id the function never
  reaches \<open>return true\<close>; the state the exception leaves behind has the new \<open>data\<close> and
  the old layer.
\<close>

definition updateLayerData :: "string \<Rightarrow> jsval \<Rightarrow> plotManager \<Rightarrow> bool outcome \<times> plotManager" where
  "updateLayerData layerId newData pm =
     (case map_of (layers pm) layerId of
        Some layerInfo \<Rightarrow>
          (Thrown setPropsMissing,
           pm\<lparr>layers := AList.update layerId (layerInfo\<lparr>data := newData\<rparr>) (layers pm)\<rparr>)
      | None \<Rightarrow> (Returned False, pm))"

text \<open>
  \<^verbatim>\<open>
  updateLayerOptions(layerId, newOptions) {
    const layerInfo = this.layers.get(layerId);
    if (layerInfo) {
      layerInfo.options = { ...layerInfo.options, ...newOptions };
      const newLayer = this.addLayer({ type: layerInfo.type, data: layerInfo.data,
                                       options: layerInfo.options, id: layerId });
      return true;
    }
    return false;
  }
  \<close>
  Spreading \<open>undefined\<close> or \<open>null\<close> adds no key.
\<close>

definition spread :: "options js \<Rightarrow> options" where
  "spread v = (case v of Val ob \<Rightarrow> ob | _ \<Rightarrow> Map.empty)"

definition updateLayerOptions :: "string \<Rightarrow> options js \<Rightarrow> nat \<Rightarrow> plotManager
    \<Rightarrow> bool outcome \<times> plotManager" where
  "updateLayerOptions layerId newOptions now pm =
     (case map_of (layers pm) layerId of
        Some layerInfo \<Rightarrow>
          (let merged = options layerInfo ++ spread newOptions;
               pm1 = pm\<lparr>layers := AList.update layerId (layerInfo\<lparr>options := merged\<rparr>) (layers pm)\<rparr>;
               (r, pm2) = addLayer (Val \<lparr>i_type = type layerInfo, i_data = data layerInfo,
                                          i_options = Val merged, i_id = Val layerId\<rparr>) now pm1
           in case r of Thrown e \<Rightarrow> (Thrown e, pm2) | Returned newLayer \<Rightarrow> (Returned True, pm2))
      | None \<Rightarrow> (Returned False, pm))"

definition getLayerInfo :: "string \<Rightarrow> plotManager \<Rightarrow> layerInfo option" where
  "getLayerInfo layerId pm = map_of (layers pm) layerId"

text \<open>
  \<^verbatim>\<open>
  clearAllLayers() { this.layers.clear(); }
  \<close>
\<close>

definition clearAllLayers :: "plotManager \<Rightarrow> plotManager" where
  "clearAllLayers pm = pm\<lparr>layers := []\<rparr>"

text \<open>
  \<^verbatim>\<open>
  processEventBatch(instructions) {
    const results = [];
    for (const instruction of instructions) {
      try {
        const layerId = this.addLayer(instruction);
        if (layerId) { results.push({ success: true, layerId, instruction }); }
        else { results.push({ success: false, error: 'Failed to create layer', instruction }); }
      } catch (error) {
        results.push({ success: false, error: error.message, instruction });
      }
    }
    return results;
  }
  \<close>
  \<open>now k\<close> is the reading of the clock while the instruction at position \<open>k\<close> is
  processed.
\<close>

record batchResult =
  success :: bool
  r_layerId :: "string option"
  r_error :: "string option"
  r_instruction :: "eventInstruction js"

definition batchEntry :: "eventInstruction js \<Rightarrow> string option outcome \<Rightarrow> batchResult" where
  "batchEntry instruction r =
     (case r of
        Returned (Some layerId) \<Rightarrow>
          if layerId \<noteq> [] then
            \<lparr>success = True, r_layerId = Some layerId, r_error = None, r_instruction = instruction\<rparr>
          else
            \<lparr>success = False, r_layerId = None, r_error = Some ''Failed to create layer'',
             r_instruction = instruction\<rparr>
      | Returned None \<Rightarrow>
          \<lparr>success = False, r_layerId = None, r_error = Some ''Failed to create layer'',
           r_instruction = instruction\<rparr>
      | Thrown message \<Rightarrow>
          \<lparr>success = False, r_layerId = None, r_error = Some message, r_instruction = instruction\<rparr>)"

fun processEventBatch_from :: "(nat \<Rightarrow> nat) \<Rightarrow> nat \<Rightarrow> eventInstruction js list \<Rightarrow> plotManager
    \<Rightarrow> batchResult list \<times> plotManager" where
  "processEventBatch_from now k [] pm = ([], pm)"
| "processEventBatch_from now k (instruction # rest) pm =
     (let (r, pm1) = addLayer instruction (now k) pm;
          (results, pm2) = processEventBatch_from now (Suc k) rest pm1
      in (batchEntry instruction r # results, pm2))"

definition processEventBatch :: "(nat \<Rightarrow> nat) \<Rightarrow> eventInstruction js list \<Rightarrow> plotManager
    \<Rightarrow> batchResult list \<times> plotManager" where
  "processEventBatch now instructions pm = processEventBatch_from now 0 instructions pm"

text \<open>A run of the manager: any sequence of calls of its methods, from outside.\<close>

datatype command =
    AddLayer "eventInstruction js" nat
  | RemoveLayer string
  | RemoveLayersByType "string js"
  | UpdateLayerData string jsval
  | UpdateLayerOptions string "options js" nat
  | ClearAllLayers
  | GenerateLayerId "string js"
  | ProcessEventBatch "eventInstruction js list" "nat \<Rightarrow> nat"

fun exec :: "command \<Rightarrow> plotManager \<Rightarrow> plotManager" where
  "exec (AddLayer i now) pm = snd (addLayer i now pm)"
| "exec (RemoveLayer layerId) pm = snd (removeLayer layerId pm)"
| "exec (RemoveLayersByType ty) pm = snd (removeLayersByType ty pm)"
| "exec (UpdateLayerData layerId newData) pm = snd (updateLayerData layerId newData pm)"
| "exec (UpdateLayerOptions layerId newOptions now) pm =
     snd (updateLayerOptions layerId newOptions now pm)"
| "exec ClearAllLayers pm = clearAllLayers pm"
| "exec (GenerateLayerId ty) pm = snd (generateLayerId ty pm)"
| "exec (ProcessEventBatch instructions now) pm = snd (processEventBatch now instructions pm)"

definition run :: "command list \<Rightarrow> plotManager \<Rightarrow> plotManager" where
  "run cmds pm = fold exec cmds pm"

section \<open>Invariants of the manager\<close>

text \<open>Every generated id ends in the decimal digits of a counter value that has been
  reached, and no id was generated twice.\<close>

definition genInv :: "plotManager \<Rightarrow> bool" where
  "genInv pm \<longleftrightarrow> distinct (generatedIds pm)
      \<and> (\<forall>g \<in> set (generatedIds pm). \<exists>t k. k \<le> layerCounter pm \<and> g = t @ ''-'' @ show_nat k)"

text \<open>Every stored record sits under a non-empty key and has one of the two types
  whose generator exists.\<close>

definition layersInv :: "plotManager \<Rightarrow> bool" where
  "layersInv pm \<longleftrightarrow> (\<forall>(k, info) \<in> set (layers pm).
      k \<noteq> [] \<and> (type info = Val ''pulsing_dot'' \<or> type info = Val ''animated_arc''))"

section \<open>Properties of the animation utilities\<close>

lemma jsmod_below:
  assumes "0 \<le> t" and "t < d"
  shows "jsmod t d = Num t"
proof -
  from assms have d: "0 < d" by simp
  with assms have "0 \<le> t / d" and "t / d < 1" by simp_all
  then have "\<lfloor>t / d\<rfloor> = 0" by linarith
  with \<open>0 \<le> t / d\<close> d show ?thesis by (simp add: jsmod_def trunc_def)
qed

lemma jsmod_self:
  assumes "d \<noteq> 0"
  shows "jsmod d d = Num 0"
  using assms by (simp add: jsmod_def trunc_def)

lemma easeOut_mono:
  fixes p q :: real
  assumes "p \<le> q" and "q \<le> 1"
  shows "1 - (1 - p) ^ 3 \<le> 1 - (1 - q) ^ 3"
proof -
  from assms have "0 \<le> 1 - q" and "1 - q \<le> 1 - p" by simp_all
  then have "(1 - q) ^ 3 \<le> (1 - p) ^ 3" by (rule power_mono[rotated])
  then show ?thesis by simp
qed



text \<open>
  C7: for \<open>baseRadius \<le> maxRadius\<close> and \<open>duration > 0\<close>, the explosion radius at
  \<open>t = duration\<close> equals the radius at \<open>t = 0\<close> (both are \<open>baseRadius\<close>), and the radius
  is non-decreasing on \<open>[0, duration)\<close>: for \<open>0 \<le> t1 \<le> t2 < duration\<close> both radii are
  numbers and the first is at most the second.
\<close>

theorem explosion_periodic_monotone:
  assumes "baseRadius \<le> maxRadius" and "0 < duration"
    and "0 \<le> t1" and "t1 \<le> t2" and "t2 < duration"
  shows "createExplosionAnimation baseRadius maxRadius (Some duration) duration =
           createExplosionAnimation baseRadius maxRadius (Some duration) 0
       \<and> createExplosionAnimation baseRadius maxRadius (Some duration) 0 = Num baseRadius
       \<and> (\<exists>r1 r2. createExplosionAnimation baseRadius maxRadius (Some duration) t1 = Num r1
             \<and> createExplosionAnimation baseRadius maxRadius (Some duration) t2 = Num r2
             \<and> r1 \<le> r2)"
proof -
  let ?f = "createExplosionAnimation baseRadius maxRadius (Some duration)"
  let ?r = "\<lambda>t. baseRadius + (maxRadius - baseRadius) * (1 - (1 - t / duration) ^ 3)"
  have at: "?f t = Num (?r t)" if "0 \<le> t" "t < duration" for t
    using jsmod_below[OF that]
    by (simp add: createExplosionAnimation_def orDefault_def)
  have zero: "?f 0 = Num baseRadius"
    using at[of 0] assms(2) by simp
  have per: "?f duration = Num baseRadius"
    using jsmod_self[of duration] assms(2)
    by (simp add: createExplosionAnimation_def orDefault_def)
  have t1: "?f t1 = Num (?r t1)" using assms by (intro at) simp_all
  have t2: "?f t2 = Num (?r t2)" using assms by (intro at) simp_all
  have "t1 / duration \<le> t2 / duration" and "t2 / duration \<le> 1"
    using assms by (simp_all add: divide_right_mono)
  then have "1 - (1 - t1 / duration) ^ 3 \<le> 1 - (1 - t2 / duration) ^ 3"
    by (rule easeOut_mono)
  then have "?r t1 \<le> ?r t2"
    using assms(1) by (simp add: mult_left_mono)
  with zero per t1 t2 show ?thesis by simp
qed

theorem explosion_periodic_monotone_witness:
  "createExplosionAnimation 10000 50000 (Some 2000) 2000 =
     createExplosionAnimation 10000 50000 (Some 2000) 0
   \<and> createExplosionAnimation 10000 50000 (Some 2000) 0 = Num 10000
   \<and> (\<exists>r1 r2. createExplosionAnimation 10000 50000 (Some 2000) 500 = Num r1
         \<and> createExplosionAnimation 10000 50000 (Some 2000) 1000 = Num r2
         \<and> r1 \<le> r2)"
  using explosion_periodic_monotone[of 10000 50000 2000 500 1000] by simp

section \<open>Properties of the manager\<close>

subsection \<open>Decimal digits\<close>

lemma digits_distinct: "distinct digits"
  by (simp add: digits_def)

lemma digits_length: "length digits = 10"
  by (simp add: digits_def)

lemma digits_inj:
  assumes "a < 10" and "b < 10" and "digits ! a = digits ! b"
  shows "a = b"
  using assms digits_distinct digits_length by (simp add: nth_eq_iff_index_eq)

lemma digits_no_dash: "CHR ''-'' \<notin> set digits"
  by (simp add: digits_def)

lemma digit_no_dash: "n < 10 \<Longrightarrow> digits ! n \<noteq> CHR ''-''"
  using digits_no_dash digits_length by (metis nth_mem)

lemma show_nat_nonempty: "show_nat n \<noteq> []"
  by (subst show_nat.simps) simp

lemma show_nat_no_dash: "CHR ''-'' \<notin> set (show_nat n)"
proof (induction n rule: show_nat.induct)
  case (1 n)
  show ?case
  proof (cases "n < 10")
    case True
    then show ?thesis
      using digit_no_dash[of n] by (subst show_nat.simps) auto
  next
    case False
    then have "CHR ''-'' \<notin> set (show_nat (n div 10))" by (rule 1)
    moreover have "digits ! (n mod 10) \<noteq> CHR ''-''" by (rule digit_no_dash) simp
    ultimately show ?thesis
      using False by (subst show_nat.simps) auto
  qed
qed

lemma show_nat_inj: "show_nat n = show_nat m \<Longrightarrow> n = m"
proof (induction n arbitrary: m rule: show_nat.induct)
  case (1 n)
  show ?case
  proof (cases "n < 10")
    case small: True
    show ?thesis
    proof (cases "m < 10")
      case True
      with small 1(2) show ?thesis
        by (simp add: show_nat.simps[of n] show_nat.simps[of m] digits_inj)
    next
      case False
      with small 1(2) show_nat_nonempty[of "m div 10"] show ?thesis
        by (simp add: show_nat.simps[of n] show_nat.simps[of m])
    qed
  next
    case big: False
    show ?thesis
    proof (cases "m < 10")
      case True
      with big 1(2) show_nat_nonempty[of "n div 10"] show ?thesis
        by (simp add: show_nat.simps[of n] show_nat.simps[of m])
    next
      case False
      with big 1(2) have eq: "show_nat (n div 10) = show_nat (m div 10)"
        and d: "digits ! (n mod 10) = digits ! (m mod 10)"
        by (simp_all add: show_nat.simps[of n] show_nat.simps[of m])
      from eq big have "n div 10 = m div 10" by (rule 1(1)[rotated])
      moreover from d have "n mod 10 = m mod 10" by (intro digits_inj) simp_all
      ultimately show ?thesis by (metis div_mult_mod_eq)
    qed
  qed
qed

lemma suffix_after_dash:
  assumes "CHR ''-'' \<notin> set a" and "CHR ''-'' \<notin> set b"
    and "t @ ''-'' @ a = u @ ''-'' @ b"
  shows "a = b"
proof -
  from assms(3) have "rev (t @ ''-'' @ a) = rev (u @ ''-'' @ b)" by simp
  then have "rev a @ CHR ''-'' # rev t = rev b @ CHR ''-'' # rev u" by simp
  then have "takeWhile (\<lambda>c. c \<noteq> CHR ''-'') (rev a @ CHR ''-'' # rev t)
           = takeWhile (\<lambda>c. c \<noteq> CHR ''-'') (rev b @ CHR ''-'' # rev u)" by simp
  moreover have "takeWhile (\<lambda>c. c \<noteq> CHR ''-'') (rev a @ CHR ''-'' # rev t) = rev a"
    using assms(1) by (auto simp: takeWhile_tail)
  moreover have "takeWhile (\<lambda>c. c \<noteq> CHR ''-'') (rev b @ CHR ''-'' # rev u) = rev b"
    using assms(2) by (auto simp: takeWhile_tail)
  ultimately show ?thesis by simp
qed

lemma generated_id_counter:
  assumes "t @ ''-'' @ show_nat n = u @ ''-'' @ show_nat m"
  shows "n = m"
  using suffix_after_dash[OF show_nat_no_dash show_nat_no_dash assms] by (rule show_nat_inj)

lemma set_update_subset: "set (AList.update k v al) \<subseteq> insert (k, v) (set al)"
  by (induction al) auto

lemma set_delete_subset: "set (AList.delete k al) \<subseteq> set al"
  by (auto simp: AList.delete_eq)

lemma set_fold_delete_subset: "set (fold AList.delete ks al) \<subseteq> set al"
proof (induction ks arbitrary: al)
  case Nil
  show ?case by simp
next
  case (Cons k ks)
  have "set (fold AList.delete ks (AList.delete k al)) \<subseteq> set (AList.delete k al)"
    by (rule Cons.IH)
  with set_delete_subset[of k al] show ?case by auto
qed

subsection \<open>generateLayerId\<close>

lemma generateLayerId_fst:
  "fst (generateLayerId ty pm) = templ ty @ ''-'' @ show_nat (Suc (layerCounter pm))"
  by (simp add: generateLayerId_def Let_def)

lemma generateLayerId_counter:
  "layerCounter (snd (generateLayerId ty pm)) = Suc (layerCounter pm)"
  by (simp add: generateLayerId_def Let_def)

lemma generateLayerId_layers:
  "layers (snd (generateLayerId ty pm)) = layers pm"
  by (simp add: generateLayerId_def Let_def)

lemma generateLayerId_nonempty: "fst (generateLayerId ty pm) \<noteq> []"
  by (simp add: generateLayerId_fst)

lemma genInv_generateLayerId:
  assumes "genInv pm"
  shows "genInv (snd (generateLayerId ty pm))"
proof -
  let ?n = "Suc (layerCounter pm)"
  let ?new = "templ ty @ ''-'' @ show_nat ?n"
  have fresh: "?new \<notin> set (generatedIds pm)"
  proof
    assume "?new \<in> set (generatedIds pm)"
    with assms obtain t k where "k \<le> layerCounter pm" and "?new = t @ ''-'' @ show_nat k"
      unfolding genInv_def by blast
    then show False using generated_id_counter[of "templ ty" ?n t k] by simp
  qed
  have old: "\<exists>t k. k \<le> ?n \<and> g = t @ ''-'' @ show_nat k" if "g \<in> set (generatedIds pm)" for g
  proof -
    from assms that obtain t k where "k \<le> layerCounter pm" and "g = t @ ''-'' @ show_nat k"
      unfolding genInv_def by blast
    then have "k \<le> ?n \<and> g = t @ ''-'' @ show_nat k" by simp
    then show ?thesis by blast
  qed
  have new: "\<exists>t k. k \<le> ?n \<and> ?new = t @ ''-'' @ show_nat k" by blast
  from assms have "distinct (generatedIds pm)" by (simp add: genInv_def)
  with fresh old new show ?thesis
    by (auto simp: genInv_def generateLayerId_def Let_def)
qed

lemma genInv_frame:
  assumes "layerCounter pm' = layerCounter pm" and "generatedIds pm' = generatedIds pm"
  shows "genInv pm' = genInv pm"
  using assms by (simp add: genInv_def)

subsection \<open>addLayer\<close>

text \<open>A property of the manager that \<open>generateLayerId\<close> keeps, and that storing a record
  of an existing generator under a non-empty key keeps, is kept by \<open>addLayer\<close>.\<close>

lemma finish_preserves:
  assumes "P pm"
    and "\<And>l ob. P (store layerId l ty dat ob now pm)"
  shows "P (snd (finish layerId ty dat opts now pm created))"
  using assms by (cases created) (simp_all add: finish_def)

lemma addLayer_preserves:
  assumes init: "P pm"
    and gen: "\<And>ty pm. P pm \<Longrightarrow> P (snd (generateLayerId ty pm))"
    and st: "\<And>k l ty dat ob now pm. P pm \<Longrightarrow> k \<noteq> [] \<Longrightarrow>
               ty = Val ''pulsing_dot'' \<or> ty = Val ''animated_arc'' \<Longrightarrow>
               P (store k l ty dat ob now pm)"
  shows "P (snd (addLayer ei now pm))"
proof (cases ei)
  case (Val i)
  define target where "target = (case i_id i of
      Val s \<Rightarrow> if s \<noteq> [] then (s, pm) else generateLayerId (i_type i) pm
    | _ \<Rightarrow> generateLayerId (i_type i) pm)"
  obtain layerId pm1 where t: "target = (layerId, pm1)" by (cases target)
  have "fst target \<noteq> [] \<and> P (snd target)"
    using init gen[OF init, of "i_type i"] generateLayerId_nonempty[of "i_type i" pm]
    by (auto simp: target_def split: js.splits)
  with t have ne: "layerId \<noteq> []" and p1: "P pm1" by simp_all
  have fin: "P (snd (finish layerId ty dat opts now pm1 created))"
    if "ty = Val ''pulsing_dot'' \<or> ty = Val ''animated_arc''" for ty dat opts created
    using p1 st[OF p1 ne that] by (rule finish_preserves)
  show ?thesis
    unfolding Val addLayer_def js.case Let_def target_def[symmetric] t prod.case
    using p1 fin by simp
qed (use init in \<open>simp_all add: addLayer_def\<close>)

lemma processEventBatch_from_preserves:
  assumes "P pm"
    and step: "\<And>ei now pm. P pm \<Longrightarrow> P (snd (addLayer ei now pm))"
  shows "P (snd (processEventBatch_from now k instructions pm))"
  using assms(1)
proof (induction instructions arbitrary: k pm)
  case Nil
  then show ?case by simp
next
  case (Cons instruction rest)
  from Cons.prems have "P (snd (addLayer instruction (now k) pm))" by (rule step)
  then have "P (snd (processEventBatch_from now (Suc k) rest (snd (addLayer instruction (now k) pm))))"
    by (rule Cons.IH)
  then show ?case by (simp add: case_prod_unfold Let_def)
qed

subsection \<open>The counter and the generated ids\<close>

lemma genInv_store: "genInv (store k l ty dat ob now pm) = genInv pm"
  by (rule genInv_frame) (simp_all add: store_def)

lemma genInv_addLayer: "genInv pm \<Longrightarrow> genInv (snd (addLayer ei now pm))"
  by (rule addLayer_preserves) (simp_all add: genInv_generateLayerId genInv_store)

lemma genInv_updateLayerOptions:
  assumes "genInv pm"
  shows "genInv (snd (updateLayerOptions layerId newOptions now pm))"
proof (cases "map_of (layers pm) layerId")
  case None
  with assms show ?thesis by (simp add: updateLayerOptions_def)
next
  case (Some layerInfo)
  have "genInv (pm\<lparr>layers := ls\<rparr>)" for ls
    using assms by (simp add: genInv_def)
  then have "genInv (snd (addLayer ei now (pm\<lparr>layers := ls\<rparr>)))" for ei ls
    by (rule genInv_addLayer)
  then show ?thesis
    by (simp add: updateLayerOptions_def Some Let_def case_prod_unfold split: outcome.splits)
qed

lemma genInv_exec: "genInv pm \<Longrightarrow> genInv (exec c pm)"
proof (cases c)
  case (AddLayer i now)
  assume "genInv pm"
  then show ?thesis unfolding AddLayer exec.simps by (rule genInv_addLayer)
next
  case (UpdateLayerOptions layerId newOptions now)
  assume "genInv pm"
  then show ?thesis unfolding UpdateLayerOptions exec.simps by (rule genInv_updateLayerOptions)
next
  case (GenerateLayerId ty)
  assume "genInv pm"
  then show ?thesis unfolding GenerateLayerId exec.simps by (rule genInv_generateLayerId)
next
  case (ProcessEventBatch instructions now)
  assume "genInv pm"
  then show ?thesis unfolding ProcessEventBatch exec.simps processEventBatch_def
    by (rule processEventBatch_from_preserves) (rule genInv_addLayer)
qed (simp_all add: genInv_def removeLayer_def removeLayersByType_def Let_def
      updateLayerData_def clearAllLayers_def split: option.splits)

lemma genInv_run: "genInv pm \<Longrightarrow> genInv (run cmds pm)"
  unfolding run_def by (induction cmds arbitrary: pm) (simp_all add: genInv_exec)

lemma genInv_constructor: "genInv constructor"
  by (simp add: genInv_def constructor_def)

lemma counter_addLayer: "c \<le> layerCounter pm \<Longrightarrow> c \<le> layerCounter (snd (addLayer ei now pm))"
  by (rule addLayer_preserves) (simp_all add: generateLayerId_counter store_def)

lemma counter_updateLayerOptions:
  "layerCounter pm \<le> layerCounter (snd (updateLayerOptions layerId newOptions now pm))"
proof (cases "map_of (layers pm) layerId")
  case None
  then show ?thesis by (simp add: updateLayerOptions_def)
next
  case (Some layerInfo)
  have "layerCounter pm \<le> layerCounter (snd (addLayer ei now (pm\<lparr>layers := ls\<rparr>)))" for ei ls
    by (rule counter_addLayer) simp
  then show ?thesis
    by (simp add: updateLayerOptions_def Some Let_def case_prod_unfold split: outcome.splits)
qed

lemma counter_exec: "layerCounter pm \<le> layerCounter (exec c pm)"
proof (cases c)
  case (AddLayer i now)
  show ?thesis unfolding AddLayer exec.simps by (rule counter_addLayer) simp
next
  case (UpdateLayerOptions layerId newOptions now)
  show ?thesis unfolding UpdateLayerOptions exec.simps by (rule counter_updateLayerOptions)
next
  case (ProcessEventBatch instructions now)
  have "layerCounter pm \<le> layerCounter pm" by simp
  then show ?thesis unfolding ProcessEventBatch exec.simps processEventBatch_def
    by (rule processEventBatch_from_preserves) (rule counter_addLayer)
qed (simp_all add: removeLayer_def removeLayersByType_def Let_def generateLayerId_counter
      updateLayerData_def clearAllLayers_def split: option.splits)

text \<open>
  C10: \<open>generateLayerId\<close> returns \<open>type-counter\<close> for the counter it has just incremented
  by one and records the id; \<open>removeLayer\<close>, \<open>removeLayersByType\<close> and
  \<open>clearAllLayers\<close> leave the counter as it is, and no call of any method lowers it. So
  after every sequence of calls on a new manager, the ids generated so far are pairwise
  different.
\<close>

theorem generated_ids_unique:
  "fst (generateLayerId ty pm) = templ ty @ ''-'' @ show_nat (layerCounter pm + 1)
   \<and> layerCounter (snd (generateLayerId ty pm)) = layerCounter pm + 1
   \<and> generatedIds (snd (generateLayerId ty pm)) = generatedIds pm @ [fst (generateLayerId ty pm)]
   \<and> layerCounter (snd (removeLayer layerId pm)) = layerCounter pm
   \<and> layerCounter (snd (removeLayersByType ty pm)) = layerCounter pm
   \<and> layerCounter (clearAllLayers pm) = layerCounter pm
   \<and> layerCounter pm \<le> layerCounter (exec c pm)
   \<and> distinct (generatedIds (run cmds constructor))"
proof -
  have "genInv (run cmds constructor)"
    using genInv_constructor by (rule genInv_run)
  then have "distinct (generatedIds (run cmds constructor))" by (simp add: genInv_def)
  then show ?thesis
    using counter_exec[of pm c]
    by (simp add: generateLayerId_def removeLayer_def
        removeLayersByType_def clearAllLayers_def Let_def)
qed

subsection \<open>Calls of generators that do not exist\<close>

text \<open>
  C2 fails on the code. \<open>addLayer\<close> has no \<open>try\<close>; for five of the seven types of the
  enumeration its \<open>switch\<close> calls a static method that \<open>LayerGenerators\<close> does not
  define, and the \<open>TypeError\<close> of that call reaches the caller of \<open>addLayer\<close>, whatever
  the data, the options, the id and the state of the manager.
\<close>

theorem addLayer_missing_generator:
  "fst (addLayer (Val \<lparr>i_type = Val ''explosion'', i_data = dat, i_options = opts, i_id = lid\<rparr>) now pm)
     = Thrown ''LayerGenerators.createExplosionLayer is not a function''
   \<and> fst (addLayer (Val \<lparr>i_type = Val ''glowing_border'', i_data = dat, i_options = opts, i_id = lid\<rparr>) now pm)
     = Thrown ''LayerGenerators.createGlowingBorderLayer is not a function''
   \<and> fst (addLayer (Val \<lparr>i_type = Val ''directional_arrow'', i_data = dat, i_options = opts, i_id = lid\<rparr>) now pm)
     = Thrown ''LayerGenerators.createDirectionalArrowLayer is not a function''
   \<and> fst (addLayer (Val \<lparr>i_type = Val ''event_marker'', i_data = dat, i_options = opts, i_id = lid\<rparr>) now pm)
     = Thrown ''LayerGenerators.createEventMarkerLayer is not a function''
   \<and> fst (addLayer (Val \<lparr>i_type = Val ''area_highlight'', i_data = dat, i_options = opts, i_id = lid\<rparr>) now pm)
     = Thrown ''LayerGenerators.createAreaHighlightLayer is not a function''"
  by (simp add: addLayer_def notAFunction_def Let_def case_prod_unfold)

subsection \<open>The pulsing dot\<close>

text \<open>
  C5 fails on the code in one constant. With the numeric options left out the builder takes
  \<open>pulseIntensity = 0.3\<close> and \<open>pulseSpeed = 2\<close> as the claim says, but \<open>baseRadius = 10000\<close>,
  not \<open>5000\<close>: the radius at time \<open>t\<close> is \<open>10000 * (1 + 0.3 * sin(t * 0.002 * 2))\<close>,
  and \<open>10000\<close> at \<open>t = 0\<close> and before the first timestamp is set.
\<close>

theorem pulsing_dot_defaults:
  "\<exists>p. createPulsingDotLayer layerId dat (Val Map.empty) = Returned (ScatterplotLayer p)
       \<and> createPulsingDotLayer layerId dat Undefined = Returned (ScatterplotLayer p)
       \<and> sp_baseRadius p = JNum 10000 \<and> sp_pulseIntensity p = JNum 0.3 \<and> sp_pulseSpeed p = JNum 2
       \<and> getRadius (ScatterplotLayer p) (Some t) = Some (10000 * (1 + 0.3 * sin (t * 0.002 * 2)))
       \<and> getRadius (ScatterplotLayer p) (Some 0) = Some 10000
       \<and> getRadius (ScatterplotLayer p) None = Some 10000"
  by (simp add: createPulsingDotLayer_def pick_def orDefault_def)

text \<open>With the three options given as numbers, the radius follows the claim's formula.\<close>

lemma pulsing_dot_given:
  "opts ''baseRadius'' = Some (JNum b) \<Longrightarrow> opts ''pulseIntensity'' = Some (JNum pi') \<Longrightarrow>
   opts ''pulseSpeed'' = Some (JNum ps) \<Longrightarrow>
   \<exists>l. createPulsingDotLayer layerId dat (Val opts) = Returned l
       \<and> getRadius l (Some t) = Some (b * (1 + pi' * sin (t * 0.002 * ps)))"
  by (simp add: createPulsingDotLayer_def pick_def orDefault_def)

subsection \<open>What \<open>addLayer\<close> returns\<close>

lemma finish_outcomes:
  assumes "\<And>e. Q (Thrown e, pm)"
    and "\<And>l ob. Q (Returned (Some layerId), store layerId l ty dat ob now pm)"
  shows "Q (finish layerId ty dat opts now pm created)"
  using assms by (cases created) (simp_all add: finish_def)

lemma addLayer_outcomes:
  assumes thrown: "\<And>e pm1. pm1 = pm \<or> (\<exists>ty. pm1 = snd (generateLayerId ty pm)) \<Longrightarrow> Q (Thrown e, pm1)"
    and none: "\<And>pm1. pm1 = pm \<or> (\<exists>ty. pm1 = snd (generateLayerId ty pm)) \<Longrightarrow> Q (Returned None, pm1)"
    and stored: "\<And>k l ty dat ob pm1. pm1 = pm \<or> (\<exists>ty. pm1 = snd (generateLayerId ty pm)) \<Longrightarrow>
               k \<noteq> [] \<Longrightarrow> Q (Returned (Some k), store k l ty dat ob now pm1)"
  shows "Q (addLayer ei now pm)"
proof (cases ei)
  case (Val i)
  define target where "target = (case i_id i of
      Val s \<Rightarrow> if s \<noteq> [] then (s, pm) else generateLayerId (i_type i) pm
    | _ \<Rightarrow> generateLayerId (i_type i) pm)"
  obtain layerId pm1 where t: "target = (layerId, pm1)" by (cases target)
  have "fst target \<noteq> [] \<and> (snd target = pm \<or> (\<exists>ty. snd target = snd (generateLayerId ty pm)))"
    using generateLayerId_nonempty[of "i_type i" pm]
    by (auto simp: target_def split: js.splits)
  with t have ne: "layerId \<noteq> []"
    and p1: "pm1 = pm \<or> (\<exists>ty. pm1 = snd (generateLayerId ty pm))" by simp_all
  have fin: "Q (finish layerId ty dat opts now pm1 created)" for ty dat opts created
    using thrown[OF p1] stored[OF p1 ne] by (rule finish_outcomes)
  show ?thesis
    unfolding Val addLayer_def js.case Let_def target_def[symmetric] t prod.case
    using thrown[OF p1] none[OF p1] fin by simp
next
  case Undefined
  show ?thesis unfolding Undefined addLayer_def js.case by (rule thrown) simp
next
  case Null
  show ?thesis unfolding Null addLayer_def js.case by (rule thrown) simp
qed

lemma keys_store: "fst ` set (layers (store k l ty dat ob now pm)) = insert k (fst ` set (layers pm))"
  by (simp add: store_def dom_update)

lemma addLayer_keys_mono:
  "K \<subseteq> fst ` set (layers pm) \<Longrightarrow> K \<subseteq> fst ` set (layers (snd (addLayer ei now pm)))"
  by (rule addLayer_preserves) (auto simp: generateLayerId_layers keys_store)

lemma addLayer_returned_stored:
  assumes "fst (addLayer ei now pm) = Returned (Some l)"
  shows "l \<noteq> [] \<and> l \<in> fst ` set (layers (snd (addLayer ei now pm)))"
proof -
  have "\<forall>l. fst (addLayer ei now pm) = Returned (Some l)
          \<longrightarrow> l \<noteq> [] \<and> l \<in> fst ` set (layers (snd (addLayer ei now pm)))"
    by (rule addLayer_outcomes[where Q = "\<lambda>x. \<forall>l. fst x = Returned (Some l)
          \<longrightarrow> l \<noteq> [] \<and> l \<in> fst ` set (layers (snd x))"]) (simp_all add: keys_store)
  with assms show ?thesis by blast
qed

subsection \<open>processEventBatch\<close>

lemma r_instruction_batchEntry: "r_instruction (batchEntry instruction r) = instruction"
  by (simp add: batchEntry_def split: outcome.splits option.splits)

lemma success_batchEntry:
  "success (batchEntry instruction r) \<longleftrightarrow> (\<exists>l. l \<noteq> [] \<and> r = Returned (Some l))"
  by (simp add: batchEntry_def split: outcome.splits option.splits)

lemma layerId_batchEntry:
  "success (batchEntry instruction r) \<Longrightarrow> r = Returned (r_layerId (batchEntry instruction r))"
  by (simp add: batchEntry_def split: outcome.splits option.splits if_splits)

lemma batch_length: "length (fst (processEventBatch_from now k instructions pm)) = length instructions"
  by (induction instructions arbitrary: k pm) (simp_all add: case_prod_unfold Let_def)

lemma batch_instructions:
  "map r_instruction (fst (processEventBatch_from now k instructions pm)) = instructions"
  by (induction instructions arbitrary: k pm)
     (simp_all add: case_prod_unfold Let_def r_instruction_batchEntry)

lemma batch_append:
  "processEventBatch_from now k (xs @ ys) pm =
     (fst (processEventBatch_from now k xs pm)
        @ fst (processEventBatch_from now (k + length xs) ys (snd (processEventBatch_from now k xs pm))),
      snd (processEventBatch_from now (k + length xs) ys (snd (processEventBatch_from now k xs pm))))"
  by (induction xs arbitrary: k pm) (simp_all add: case_prod_unfold Let_def)

lemma batch_nth:
  assumes "j < length instructions"
  shows "fst (processEventBatch_from now k instructions pm) ! j =
           batchEntry (instructions ! j)
             (fst (addLayer (instructions ! j) (now (k + j))
                    (snd (processEventBatch_from now k (take j instructions) pm))))"
proof -
  let ?xs = "take j instructions" and ?ys = "instructions ! j # drop (Suc j) instructions"
  have split: "instructions = ?xs @ ?ys"
    using assms by (simp add: id_take_nth_drop[symmetric])
  have len: "length (fst (processEventBatch_from now k ?xs pm)) = j"
    using assms by (simp add: batch_length)
  have "fst (processEventBatch_from now k instructions pm) ! j
      = fst (processEventBatch_from now k (?xs @ ?ys) pm) ! j"
    using split by simp
  also have "\<dots> = fst (processEventBatch_from now (k + length ?xs) ?ys
                        (snd (processEventBatch_from now k ?xs pm))) ! 0"
    unfolding batch_append using len by (simp add: nth_append)
  also have "\<dots> = batchEntry (instructions ! j)
             (fst (addLayer (instructions ! j) (now (k + j))
                    (snd (processEventBatch_from now k ?xs pm))))"
    using assms by (simp add: case_prod_unfold Let_def)
  finally show ?thesis .
qed

lemma batch_Cons_fst:
  "fst (processEventBatch_from now k (instruction # rest) pm) =
     batchEntry instruction (fst (addLayer instruction (now k) pm))
       # fst (processEventBatch_from now (Suc k) rest (snd (addLayer instruction (now k) pm)))"
  by (simp add: case_prod_unfold Let_def)

lemma batch_Cons_snd:
  "snd (processEventBatch_from now k (instruction # rest) pm) =
     snd (processEventBatch_from now (Suc k) rest (snd (addLayer instruction (now k) pm)))"
  by (simp add: case_prod_unfold Let_def)

lemma batch_keys_mono:
  assumes "K \<subseteq> fst ` set (layers pm)"
  shows "K \<subseteq> fst ` set (layers (snd (processEventBatch_from now k instructions pm)))"
  using assms by (rule processEventBatch_from_preserves) (rule addLayer_keys_mono)

lemma batch_success_stored:
  assumes "r \<in> set (fst (processEventBatch_from now k instructions pm))" and "success r"
  shows "\<exists>l. r_layerId r = Some l
           \<and> l \<in> fst ` set (layers (snd (processEventBatch_from now k instructions pm)))"
  using assms
proof (induction instructions arbitrary: k pm)
  case Nil
  then show ?case by simp
next
  case (Cons instruction rest)
  let ?a = "addLayer instruction (now k) pm"
  let ?rest = "processEventBatch_from now (Suc k) rest (snd ?a)"
  from Cons.prems(1) have "r = batchEntry instruction (fst ?a) \<or> r \<in> set (fst ?rest)"
    unfolding batch_Cons_fst by simp
  then show ?case
  proof
    assume r: "r = batchEntry instruction (fst ?a)"
    from Cons.prems(2) have "success (batchEntry instruction (fst ?a))"
      unfolding r .
    then obtain l where l: "fst ?a = Returned (Some l)"
      unfolding success_batchEntry by blast
    then have "l \<noteq> []" and "l \<in> fst ` set (layers (snd ?a))"
      using addLayer_returned_stored[OF l] by simp_all
    then have "{l} \<subseteq> fst ` set (layers (snd ?a))" by simp
    then have "{l} \<subseteq> fst ` set (layers (snd ?rest))" by (rule batch_keys_mono)
    then have stored: "l \<in> fst ` set (layers (snd ?rest))" by simp
    have "r_layerId r = Some l"
      unfolding r l using \<open>l \<noteq> []\<close> by (simp add: batchEntry_def)
    with stored show ?thesis unfolding batch_Cons_snd by blast
  next
    assume "r \<in> set (fst ?rest)"
    then show ?thesis unfolding batch_Cons_snd using Cons.prems(2) by (rule Cons.IH)
  qed
qed

text \<open>Whether \<open>addLayer\<close> returns a layer id is decided by the instruction alone, not by
  the state of the manager or by the clock.\<close>

lemma finish_fst:
  "fst (finish layerId ty dat opts now pm created)
     = (case created of Thrown e \<Rightarrow> Thrown e | Returned l \<Rightarrow> Returned (Some layerId))"
  by (cases created) (simp_all add: finish_def)

lemma generators_succeed_iff:
  "(\<exists>l. createPulsingDotLayer layerId dat opts = Returned l) \<longleftrightarrow> opts \<noteq> Null"
  "(\<exists>l. createArcLayer layerId dat opts = Returned l) \<longleftrightarrow> opts \<noteq> Null"
  by (cases opts; simp add: createPulsingDotLayer_def createArcLayer_def)+

lemma addLayer_succeeds_iff:
  "(\<exists>l. fst (addLayer ei now pm) = Returned (Some l))
     \<longleftrightarrow> (\<exists>i. ei = Val i
            \<and> (i_type i = Val ''pulsing_dot'' \<or> i_type i = Val ''animated_arc'')
            \<and> i_options i \<noteq> Null)"
proof (cases ei)
  case (Val i)
  define target where "target = (case i_id i of
      Val s \<Rightarrow> if s \<noteq> [] then (s, pm) else generateLayerId (i_type i) pm
    | _ \<Rightarrow> generateLayerId (i_type i) pm)"
  obtain layerId pm1 where t: "target = (layerId, pm1)" by (cases target)
  define opts where "opts = (case i_options i of Undefined \<Rightarrow> Val Map.empty | v \<Rightarrow> v)"
  have o: "opts \<noteq> Null \<longleftrightarrow> i_options i \<noteq> Null"
    by (cases "i_options i") (simp_all add: opts_def)
  have fin: "(\<exists>l. fst (finish layerId ty dat opts now pm1 created) = Returned (Some l))
      \<longleftrightarrow> (\<exists>l. created = Returned l)" for ty dat created
    by (cases created) (simp_all add: finish_fst)
  show ?thesis
    unfolding Val addLayer_def js.case Let_def target_def[symmetric] t prod.case opts_def[symmetric]
    by (simp add: fin generators_succeed_iff o)
qed (simp_all add: addLayer_def)

lemma batchEntry_success_independent:
  "success (batchEntry ei (fst (addLayer ei now pm)))
     = success (batchEntry ei (fst (addLayer ei now' pm')))"
proof -
  have nonempty: "(\<exists>l. l \<noteq> [] \<and> fst (addLayer ei t p) = Returned (Some l))
      \<longleftrightarrow> (\<exists>l. fst (addLayer ei t p) = Returned (Some l))" for t p
    using addLayer_returned_stored[of ei t p] by blast
  show ?thesis
    unfolding success_batchEntry nonempty addLayer_succeeds_iff ..
qed

text \<open>
  C3: \<open>processEventBatch\<close> returns one entry per instruction, in input order, each entry
  carrying its instruction. The entry at position \<open>j\<close> is what \<open>addLayer\<close> makes of
  instruction \<open>j\<close> in the state the earlier instructions left, whether they succeeded or
  failed (a thrown error is caught and becomes \<open>success: false\<close>), and its \<open>success\<close> flag
  is the one instruction \<open>j\<close> would get on its own, in any state \<open>pm0\<close> at any time
  \<open>now0\<close>. Nothing is rolled back: every key stored before the batch, and the layer id of
  every successful entry, is a key of the manager after the batch.
\<close>

theorem processEventBatch_independent:
  assumes "processEventBatch now instructions pm = (results, pm')"
  shows "length results = length instructions
       \<and> map r_instruction results = instructions
       \<and> (\<forall>j < length instructions.
            results ! j = batchEntry (instructions ! j)
              (fst (addLayer (instructions ! j) (now j)
                     (snd (processEventBatch now (take j instructions) pm)))))
       \<and> (\<forall>j < length instructions.
            success (results ! j)
              = success (batchEntry (instructions ! j)
                  (fst (addLayer (instructions ! j) now0 pm0))))
       \<and> (\<forall>r \<in> set results. success r \<longrightarrow>
            (\<exists>l. r_layerId r = Some l \<and> l \<in> fst ` set (layers pm')))
       \<and> fst ` set (layers pm) \<subseteq> fst ` set (layers pm')"
proof (intro conjI allI ballI impI)
  from assms have r: "results = fst (processEventBatch_from now 0 instructions pm)"
    and p: "pm' = snd (processEventBatch_from now 0 instructions pm)"
    by (simp_all add: processEventBatch_def)
  show "length results = length instructions" unfolding r by (rule batch_length)
  show "map r_instruction results = instructions" unfolding r by (rule batch_instructions)
  show "results ! j = batchEntry (instructions ! j)
              (fst (addLayer (instructions ! j) (now j)
                     (snd (processEventBatch now (take j instructions) pm))))"
    if "j < length instructions" for j
    unfolding r processEventBatch_def using batch_nth[OF that, of now 0 pm] by simp
  show "success (results ! j)
          = success (batchEntry (instructions ! j) (fst (addLayer (instructions ! j) now0 pm0)))"
    if "j < length instructions" for j
    unfolding r batch_nth[OF that] by (rule batchEntry_success_independent)
  show "\<exists>l. r_layerId r' = Some l \<and> l \<in> fst ` set (layers pm')"
    if "r' \<in> set results" "success r'" for r'
    using that unfolding r p by (rule batch_success_stored)
  show "fst ` set (layers pm) \<subseteq> fst ` set (layers pm')"
    unfolding p by (rule batch_keys_mono) simp
qed

theorem processEventBatch_independent_witness:
  "length (fst (processEventBatch (\<lambda>k. 1000 + k)
      [Val \<lparr>i_type = Val ''pulsing_dot'', i_data = JArr [], i_options = Undefined, i_id = Val ''a''\<rparr>,
       Val \<lparr>i_type = Val ''explosion'', i_data = JArr [], i_options = Undefined, i_id = Val ''b''\<rparr>,
       Val \<lparr>i_type = Val ''animated_arc'', i_data = JArr [], i_options = Undefined, i_id = Val ''c''\<rparr>]
      constructor)) = 3
   \<and> map success (fst (processEventBatch (\<lambda>k. 1000 + k)
      [Val \<lparr>i_type = Val ''pulsing_dot'', i_data = JArr [], i_options = Undefined, i_id = Val ''a''\<rparr>,
       Val \<lparr>i_type = Val ''explosion'', i_data = JArr [], i_options = Undefined, i_id = Val ''b''\<rparr>,
       Val \<lparr>i_type = Val ''animated_arc'', i_data = JArr [], i_options = Undefined, i_id = Val ''c''\<rparr>]
      constructor)) = [True, False, True]
   \<and> map fst (layers (snd (processEventBatch (\<lambda>k. 1000 + k)
      [Val \<lparr>i_type = Val ''pulsing_dot'', i_data = JArr [], i_options = Undefined, i_id = Val ''a''\<rparr>,
       Val \<lparr>i_type = Val ''explosion'', i_data = JArr [], i_options = Undefined, i_id = Val ''b''\<rparr>,
       Val \<lparr>i_type = Val ''animated_arc'', i_data = JArr [], i_options = Undefined, i_id = Val ''c''\<rparr>]
      constructor))) = [''a'', ''c'']"
proof -
  let ?b = "[Val \<lparr>i_type = Val ''pulsing_dot'', i_data = JArr [], i_options = Undefined, i_id = Val ''a''\<rparr>,
       Val \<lparr>i_type = Val ''explosion'', i_data = JArr [], i_options = Undefined, i_id = Val ''b''\<rparr>,
       Val \<lparr>i_type = Val ''animated_arc'', i_data = JArr [], i_options = Undefined, i_id = Val ''c''\<rparr>]"
  let ?run = "processEventBatch (\<lambda>k. 1000 + k) ?b constructor"
  have e: "?run = (fst ?run, snd ?run)" by simp
  have len: "length (fst ?run) = length ?b"
    using processEventBatch_independent[OF e] by blast
  have s: "map success (fst ?run) = [True, False, True]"
    by (simp add: processEventBatch_def addLayer_def finish_def store_def createPulsingDotLayer_def
      createArcLayer_def constructor_def batchEntry_def notAFunction_def Let_def)
  have k: "map fst (layers (snd ?run)) = [''a'', ''c'']"
    by (simp add: processEventBatch_def addLayer_def finish_def store_def createPulsingDotLayer_def
      createArcLayer_def constructor_def batchEntry_def notAFunction_def Let_def)
  from len s k show ?thesis by simp
qed

subsection \<open>Stored records\<close>

lemma layersInv_store:
  assumes "layersInv pm" and "k \<noteq> []"
    and "ty = Val ''pulsing_dot'' \<or> ty = Val ''animated_arc''"
  shows "layersInv (store k l ty dat ob now pm)"
proof -
  have "set (layers (store k l ty dat ob now pm))
      \<subseteq> insert (k, \<lparr>layer = l, type = ty, data = dat, options = ob, createdAt = now\<rparr>) (set (layers pm))"
    unfolding store_def by (simp add: set_update_subset)
  with assms show ?thesis unfolding layersInv_def by fastforce
qed

lemma layersInv_generateLayerId: "layersInv pm \<Longrightarrow> layersInv (snd (generateLayerId ty pm))"
  by (simp add: layersInv_def generateLayerId_layers)

lemma layersInv_addLayer: "layersInv pm \<Longrightarrow> layersInv (snd (addLayer ei now pm))"
  by (rule addLayer_preserves) (simp_all add: layersInv_generateLayerId layersInv_store)

lemma layersInv_subset:
  assumes "layersInv pm" and "set ls \<subseteq> set (layers pm)"
  shows "layersInv (pm\<lparr>layers := ls\<rparr>)"
  using assms unfolding layersInv_def by auto

lemma layersInv_modify:
  assumes "layersInv pm" and "map_of (layers pm) k = Some info" and "type info' = type info"
  shows "layersInv (pm\<lparr>layers := AList.update k info' (layers pm)\<rparr>)"
proof -
  from assms(2) have mem: "(k, info) \<in> set (layers pm)" by (rule map_of_SomeD)
  have "set (AList.update k info' (layers pm)) \<subseteq> insert (k, info') (set (layers pm))"
    by (rule set_update_subset)
  with assms(1,3) mem show ?thesis unfolding layersInv_def by fastforce
qed

lemma layersInv_updateLayerOptions:
  assumes "layersInv pm"
  shows "layersInv (snd (updateLayerOptions layerId newOptions now pm))"
proof (cases "map_of (layers pm) layerId")
  case None
  with assms show ?thesis by (simp add: updateLayerOptions_def)
next
  case (Some layerInfo)
  let ?pm1 = "pm\<lparr>layers := AList.update layerId
      (layerInfo\<lparr>options := options layerInfo ++ spread newOptions\<rparr>) (layers pm)\<rparr>"
  have "layersInv ?pm1" using assms Some by (rule layersInv_modify) simp
  then have "layersInv (snd (addLayer ei now ?pm1))" for ei by (rule layersInv_addLayer)
  then show ?thesis
    by (simp add: updateLayerOptions_def Some Let_def case_prod_unfold split: outcome.splits)
qed

lemma layersInv_updateLayerData:
  assumes "layersInv pm"
  shows "layersInv (snd (updateLayerData layerId newData pm))"
proof (cases "map_of (layers pm) layerId")
  case None
  with assms show ?thesis by (simp add: updateLayerData_def)
next
  case (Some layerInfo)
  have "layersInv (pm\<lparr>layers := AList.update layerId
      (layerInfo\<lparr>data := newData\<rparr>) (layers pm)\<rparr>)"
    using assms Some by (rule layersInv_modify) simp
  then show ?thesis by (simp add: updateLayerData_def Some)
qed

lemma layersInv_exec: "layersInv pm \<Longrightarrow> layersInv (exec c pm)"
proof (cases c)
  case (AddLayer i now)
  assume "layersInv pm"
  then show ?thesis unfolding AddLayer exec.simps by (rule layersInv_addLayer)
next
  case (RemoveLayer layerId)
  assume "layersInv pm"
  then show ?thesis unfolding RemoveLayer exec.simps removeLayer_def snd_conv
    by (rule layersInv_subset) (rule set_delete_subset)
next
  case (RemoveLayersByType ty)
  assume "layersInv pm"
  then show ?thesis unfolding RemoveLayersByType exec.simps removeLayersByType_def Let_def snd_conv
    by (rule layersInv_subset) (rule set_fold_delete_subset)
next
  case (UpdateLayerData layerId newData)
  assume "layersInv pm"
  then show ?thesis unfolding UpdateLayerData exec.simps by (rule layersInv_updateLayerData)
next
  case (UpdateLayerOptions layerId newOptions now)
  assume "layersInv pm"
  then show ?thesis unfolding UpdateLayerOptions exec.simps by (rule layersInv_updateLayerOptions)
next
  case ClearAllLayers
  assume "layersInv pm"
  then show ?thesis unfolding ClearAllLayers exec.simps clearAllLayers_def
    by (rule layersInv_subset) simp
next
  case (GenerateLayerId ty)
  assume "layersInv pm"
  then show ?thesis unfolding GenerateLayerId exec.simps by (rule layersInv_generateLayerId)
next
  case (ProcessEventBatch instructions now)
  assume "layersInv pm"
  then show ?thesis unfolding ProcessEventBatch exec.simps processEventBatch_def
    by (rule processEventBatch_from_preserves) (rule layersInv_addLayer)
qed

lemma layersInv_run: "layersInv pm \<Longrightarrow> layersInv (run cmds pm)"
  unfolding run_def by (induction cmds arbitrary: pm) (simp_all add: layersInv_exec)

lemma layersInv_constructor: "layersInv constructor"
  by (simp add: layersInv_def constructor_def)

lemma addLayer_recreate:
  assumes "layerId \<noteq> []"
    and "ty = Val ''pulsing_dot'' \<and> createPulsingDotLayer layerId dat (Val ob) = Returned l
       \<or> ty = Val ''animated_arc'' \<and> createArcLayer layerId dat (Val ob) = Returned l"
  shows "addLayer (Val \<lparr>i_type = ty, i_data = dat, i_options = Val ob, i_id = Val layerId\<rparr>) now pm
       = (Returned (Some layerId), store layerId l ty dat ob now pm)"
  using assms(2)
proof (elim disjE conjE)
  assume "ty = Val ''pulsing_dot''" and "createPulsingDotLayer layerId dat (Val ob) = Returned l"
  then show ?thesis using assms(1) by (simp add: addLayer_def finish_def Let_def)
next
  assume "ty = Val ''animated_arc''" and "createArcLayer layerId dat (Val ob) = Returned l"
  then show ?thesis using assms(1) by (simp add: addLayer_def finish_def Let_def)
qed

lemma generators_return:
  "\<exists>l. createPulsingDotLayer layerId dat (Val ob) = Returned l"
  "\<exists>l. createArcLayer layerId dat (Val ob) = Returned l"
  by (simp_all add: createPulsingDotLayer_def createArcLayer_def)

lemma getLayerInfo_store:
  "getLayerInfo k (store k l ty dat ob now pm)
     = Some \<lparr>layer = l, type = ty, data = dat, options = ob, createdAt = now\<rparr>"
  by (simp add: getLayerInfo_def store_def update_conv')

text \<open>
  C9: in every state a manager can reach, for every stored layer id,
  \<open>updateLayerOptions\<close> returns \<open>true\<close>, builds the layer again with the generator of the
  stored type from the merged options, and stores a new record under the same id whose
  \<open>createdAt\<close> is the time of the update (type and data are carried over).
  \<open>updateLayerData\<close> writes the new \<open>data\<close> into the stored record and then throws at
  \<open>layer.setProps\<close>: in the state it leaves, \<open>createdAt\<close>, \<open>type\<close>, \<open>options\<close> and the
  layer are as they were, and only \<open>data\<close> has changed.
\<close>

theorem updateLayerOptions_resets_createdAt:
  assumes "pm = run cmds constructor" and "getLayerInfo layerId pm = Some info"
  shows "\<exists>l. fst (updateLayerOptions layerId newOptions now pm) = Returned True
      \<and> (type info = Val ''pulsing_dot''
            \<and> createPulsingDotLayer layerId (data info) (Val (options info ++ spread newOptions))
                = Returned l
          \<or> type info = Val ''animated_arc''
            \<and> createArcLayer layerId (data info) (Val (options info ++ spread newOptions))
                = Returned l)
      \<and> getLayerInfo layerId (snd (updateLayerOptions layerId newOptions now pm))
          = Some \<lparr>layer = l, type = type info, data = data info,
                  options = options info ++ spread newOptions, createdAt = now\<rparr>
      \<and> fst (updateLayerData layerId newData pm) = Thrown setPropsMissing
      \<and> getLayerInfo layerId (snd (updateLayerData layerId newData pm))
          = Some \<lparr>layer = layer info, type = type info, data = newData,
                  options = options info, createdAt = createdAt info\<rparr>"
proof -
  let ?merged = "options info ++ spread newOptions"
  let ?pm1 = "pm\<lparr>layers := AList.update layerId (info\<lparr>options := ?merged\<rparr>) (layers pm)\<rparr>"
  have inv: "layersInv pm"
    unfolding assms(1) using layersInv_constructor by (rule layersInv_run)
  from assms(2) have stored: "map_of (layers pm) layerId = Some info"
    by (simp add: getLayerInfo_def)
  then have "(layerId, info) \<in> set (layers pm)" by (rule map_of_SomeD)
  with inv have ne: "layerId \<noteq> []"
    and ty: "type info = Val ''pulsing_dot'' \<or> type info = Val ''animated_arc''"
    unfolding layersInv_def by auto
  from ty generators_return[of layerId "data info" ?merged]
  obtain l where l: "type info = Val ''pulsing_dot''
            \<and> createPulsingDotLayer layerId (data info) (Val ?merged) = Returned l
          \<or> type info = Val ''animated_arc''
            \<and> createArcLayer layerId (data info) (Val ?merged) = Returned l"
    by blast
  have add: "addLayer (Val \<lparr>i_type = type info, i_data = data info, i_options = Val ?merged,
                           i_id = Val layerId\<rparr>) now ?pm1
       = (Returned (Some layerId), store layerId l (type info) (data info) ?merged now ?pm1)"
    using ne l by (rule addLayer_recreate)
  have upd: "updateLayerOptions layerId newOptions now pm
       = (Returned True, store layerId l (type info) (data info) ?merged now ?pm1)"
    unfolding updateLayerOptions_def stored option.case Let_def add by simp
  have dat: "updateLayerData layerId newData pm
       = (Thrown setPropsMissing,
          pm\<lparr>layers := AList.update layerId (info\<lparr>data := newData\<rparr>) (layers pm)\<rparr>)"
    by (simp add: updateLayerData_def stored)
  have 1: "fst (updateLayerOptions layerId newOptions now pm) = Returned True"
    by (simp add: upd)
  have 2: "getLayerInfo layerId (snd (updateLayerOptions layerId newOptions now pm))
          = Some \<lparr>layer = l, type = type info, data = data info,
                  options = ?merged, createdAt = now\<rparr>"
    by (simp add: upd getLayerInfo_store)
  have 3: "fst (updateLayerData layerId newData pm) = Thrown setPropsMissing"
    by (simp add: dat)
  have 4: "getLayerInfo layerId (snd (updateLayerData layerId newData pm))
          = Some \<lparr>layer = layer info, type = type info, data = newData,
                  options = options info, createdAt = createdAt info\<rparr>"
    by (simp add: dat getLayerInfo_def update_conv')
  show ?thesis
    by (intro exI[of _ l] conjI) (rule 1 l 2 3 4)+
qed

theorem updateLayerOptions_resets_createdAt_witness:
  "(\<exists>info. getLayerInfo ''a'' (run [AddLayer (Val \<lparr>i_type = Val ''pulsing_dot'', i_data = JArr [],
        i_options = Undefined, i_id = Val ''a''\<rparr>) 1000] constructor) = Some info
      \<and> createdAt info = 1000)
   \<and> (\<exists>info'. getLayerInfo ''a'' (snd (updateLayerOptions ''a'' (Val [''baseRadius'' \<mapsto> JNum 7000]) 2000
        (run [AddLayer (Val \<lparr>i_type = Val ''pulsing_dot'', i_data = JArr [],
           i_options = Undefined, i_id = Val ''a''\<rparr>) 1000] constructor))) = Some info'
      \<and> createdAt info' = 2000)
   \<and> (\<exists>info''. getLayerInfo ''a'' (snd (updateLayerData ''a'' (JArr [JNull])
        (run [AddLayer (Val \<lparr>i_type = Val ''pulsing_dot'', i_data = JArr [],
           i_options = Undefined, i_id = Val ''a''\<rparr>) 1000] constructor))) = Some info''
      \<and> createdAt info'' = 1000 \<and> data info'' = JArr [JNull])
   \<and> fst (updateLayerData ''a'' (JArr [JNull])
        (run [AddLayer (Val \<lparr>i_type = Val ''pulsing_dot'', i_data = JArr [],
           i_options = Undefined, i_id = Val ''a''\<rparr>) 1000] constructor))
      = Thrown ''layerInfo.layer.setProps is not a function''"
proof -
  let ?pm = "run [AddLayer (Val \<lparr>i_type = Val ''pulsing_dot'', i_data = JArr [],
        i_options = Undefined, i_id = Val ''a''\<rparr>) 1000] constructor"
  obtain l where e: "getLayerInfo ''a'' ?pm
      = Some \<lparr>layer = l, type = Val ''pulsing_dot'', data = JArr [], options = Map.empty,
              createdAt = 1000\<rparr>"
    by (simp add: run_def addLayer_def finish_def store_def createPulsingDotLayer_def
        constructor_def getLayerInfo_def Let_def)
  from updateLayerOptions_resets_createdAt[OF refl e,
      of "Val [''baseRadius'' \<mapsto> JNum 7000]" 2000 "JArr [JNull]"] e
  show ?thesis by (auto simp: setPropsMissing_def)
qed

section \<open>Properties of the globe and geocoding utilities\<close>

subsection \<open>The arc curve\<close>

lemma sphere_norm:
  fixes r p q :: real
  shows "(- (r * sin p * cos q)) * (- (r * sin p * cos q)) + (r * cos p) * (r * cos p)
         + (r * sin p * sin q) * (r * sin p * sin q) = r\<^sup>2"
  using sin_cos_squared_add[of p] sin_cos_squared_add[of q] by algebra

lemma length3_latLngToVector3:
  assumes "0 \<le> r"
  shows "length3 (latLngToVector3 la lo (Some r)) = r"
proof -
  have "length3 (latLngToVector3 la lo (Some r)) = sqrt (r\<^sup>2)"
    unfolding length3_def latLngToVector3_def orDefault_def Let_def option.case Vector3.sel
    by (simp only: sphere_norm)
  with assms show ?thesis by simp
qed

lemma length3_default: "length3 (latLngToVector3 la lo None) = 5"
proof -
  have "latLngToVector3 la lo None = latLngToVector3 la lo (Some 5)"
    by (simp add: latLngToVector3_def orDefault_def GLOBE_CONFIG_radius_def)
  then show ?thesis using length3_latLngToVector3[of 5 la lo] by simp
qed

lemma bezier_collapsed:
  "QuadraticBezier t p (p * (5 + h) / 5) p = p * (1 + 2 * t * (1 - t) * h / 5)"
  unfolding QuadraticBezier_def by (simp add: field_simps)

text \<open>
  C8, as the code has it. \<open>createArcCurve(a, a, h)\<close> has no operation that can raise. Its
  curve starts and ends at the projection \<open>v\<close> of \<open>a\<close>, but the middle control point is
  \<open>v\<close> pushed out to radius \<open>5 + h\<close>, so the point at parameter \<open>t\<close> is
  \<open>(1 + 2 t (1 - t) h / 5) v\<close>: the curve leaves the surface along the ray through \<open>v\<close> and
  comes back. It is the single point \<open>v\<close> at every parameter when \<open>h = 0\<close>.
\<close>

theorem degenerate_arc_shape:
  "getPoint (createArcCurve \<lparr>lat = la, lng = lo\<rparr> \<lparr>lat = la, lng = lo\<rparr> (Some h)) t
     = multiplyScalar (latLngToVector3 la lo None) (1 + 2 * t * (1 - t) * h / 5)
   \<and> getPoint (createArcCurve \<lparr>lat = la, lng = lo\<rparr> \<lparr>lat = la, lng = lo\<rparr> (Some h)) 0
     = latLngToVector3 la lo None
   \<and> getPoint (createArcCurve \<lparr>lat = la, lng = lo\<rparr> \<lparr>lat = la, lng = lo\<rparr> (Some h)) 1
     = latLngToVector3 la lo None
   \<and> getPoint (createArcCurve \<lparr>lat = la, lng = lo\<rparr> \<lparr>lat = la, lng = lo\<rparr> (Some 0)) t
     = latLngToVector3 la lo None"
proof -
  let ?v = "latLngToVector3 la lo None"
  have mid: "multiplyScalar (add3 ?v ?v) (1 / 2) = ?v"
    by (cases ?v) (simp add: multiplyScalar_def add3_def)
  have norm: "normalize3 ?v = multiplyScalar ?v (1 / 5)"
    by (simp add: normalize3_def length3_default)
  have curve: "createArcCurve \<lparr>lat = la, lng = lo\<rparr> \<lparr>lat = la, lng = lo\<rparr> (Some k)
      = QuadraticBezierCurve3 ?v (multiplyScalar (multiplyScalar ?v (1 / 5)) (5 + k)) ?v" for k
    by (simp add: createArcCurve_def Let_def orDefault_def mid norm GLOBE_CONFIG_radius_def)
  have pt: "getPoint (createArcCurve \<lparr>lat = la, lng = lo\<rparr> \<lparr>lat = la, lng = lo\<rparr> (Some k)) s
      = multiplyScalar ?v (1 + 2 * s * (1 - s) * k / 5)" for k s
    unfolding curve getPoint_def multiplyScalar_def
    by (simp add: bezier_collapsed)
  have one: "multiplyScalar ?v 1 = ?v"
    by (cases ?v) (simp add: multiplyScalar_def)
  show ?thesis
    using pt[of h t] pt[of h 0] pt[of h 1] pt[of 0 t] one by simp
qed

text \<open>
  C8 as the claim writes it fails for \<open>a = (0, 0)\<close> and the default arc height \<open>2\<close>: the
  projection of \<open>a\<close> is \<open>(5, 0, 0)\<close>, the curve at \<open>t = 1/2\<close> is at \<open>(6, 0, 0)\<close>.
\<close>

theorem degenerate_arc_counterexample:
  "getPoint (createArcCurve \<lparr>lat = 0, lng = 0\<rparr> \<lparr>lat = 0, lng = 0\<rparr> None) (1/2)
     \<noteq> latLngToVector3 0 0 None"
proof -
  have v: "latLngToVector3 0 0 None = Vector3 5 0 0"
    by (simp add: latLngToVector3_def orDefault_def GLOBE_CONFIG_radius_def Let_def)
  have n: "normalize3 (Vector3 5 0 0) = Vector3 1 0 0"
    by (simp add: normalize3_def length3_def multiplyScalar_def)
  have "getPoint (createArcCurve \<lparr>lat = 0, lng = 0\<rparr> \<lparr>lat = 0, lng = 0\<rparr> None) (1/2)
      = Vector3 6 0 0"
    by (simp add: createArcCurve_def Let_def orDefault_def v n add3_def multiplyScalar_def
        GLOBE_CONFIG_radius_def getPoint_def QuadraticBezier_def)
  with v show ?thesis by simp
qed

subsection \<open>The round trip of the projection\<close>

lemma atan2_polar:
  assumes k: "0 < k" and lo: "- pi < a" and hi: "a \<le> pi"
  shows "atan2 (k * sin a) (k * cos a) = a"
proof -
  consider (mid) "- (pi / 2) < a" "a < pi / 2"
    | (top) "a = pi / 2"
    | (bot) "a = - (pi / 2)"
    | (left) "pi / 2 < a"
    | (right) "a < - (pi / 2)"
    by linarith
  then show ?thesis
  proof cases
    case mid
    then have "0 < cos a" by (rule cos_gt_zero_pi)
    with k have "0 < k * cos a" by simp
    then have "atan2 (k * sin a) (k * cos a) = arctan (tan a)"
      using k by (simp add: atan2_def tan_def)
    also have "\<dots> = a" using mid by (rule arctan_tan)
    finally show ?thesis .
  next
    case top
    show ?thesis unfolding top using k by (simp add: atan2_def)
  next
    case bot
    show ?thesis unfolding bot using k by (simp add: atan2_def)
  next
    case left
    let ?b = "a - pi"
    have b: "- (pi / 2) < ?b" "?b < pi / 2" using left hi by simp_all
    then have "0 < cos ?b" by (rule cos_gt_zero_pi)
    then have c: "cos a < 0" by simp
    have "0 \<le> a" using left pi_ge_zero by linarith
    then have s: "0 \<le> sin a" using hi by (rule sin_ge_zero)
    from c k have x: "k * cos a < 0" by (simp add: mult_pos_neg)
    from s k have y: "0 \<le> k * sin a" by simp
    have "tan a = tan (?b + pi)" by simp
    also have "\<dots> = tan ?b" by (rule tan_periodic_pi)
    finally have t: "tan a = tan ?b" .
    from x y have "atan2 (k * sin a) (k * cos a) = arctan (tan a) + pi"
      using k by (simp add: atan2_def tan_def)
    also have "\<dots> = arctan (tan ?b) + pi" by (simp only: t)
    also have "\<dots> = ?b + pi" using b by (simp only: arctan_tan)
    finally show ?thesis by simp
  next
    case right
    let ?b = "a + pi"
    have b: "- (pi / 2) < ?b" "?b < pi / 2" using right lo by simp_all
    then have "0 < cos ?b" by (rule cos_gt_zero_pi)
    then have c: "cos a < 0" by simp
    have "0 < ?b" "?b < pi" using right lo by simp_all
    then have "0 < sin ?b" by (rule sin_gt_zero)
    then have s: "sin a < 0" by simp
    from c k have x: "k * cos a < 0" by (simp add: mult_pos_neg)
    from s k have y: "\<not> 0 \<le> k * sin a" by (simp add: mult_pos_neg not_le)
    have t: "tan ?b = tan a" by (rule tan_periodic_pi)
    from x y have "atan2 (k * sin a) (k * cos a) = arctan (tan a) - pi"
      using k by (simp add: atan2_def tan_def)
    also have "\<dots> = arctan (tan ?b) - pi" by (simp only: t)
    also have "\<dots> = ?b - pi" using b by (simp only: arctan_tan)
    finally show ?thesis by simp
  qed
qed

lemma atan2_wrapped:
  assumes k: "0 < k" and lo: "0 \<le> th" and hi: "th \<le> 2 * pi"
  shows "atan2 (k * sin th) (k * cos th) = (if th \<le> pi then th else th - 2 * pi)"
proof (cases "th \<le> pi")
  case True
  have "- pi < th" using lo pi_gt_zero by linarith
  with k have "atan2 (k * sin th) (k * cos th) = th" using True by (rule atan2_polar)
  with True show ?thesis by simp
next
  case False
  let ?a = "th - 2 * pi"
  have a: "- pi < ?a" "?a \<le> pi" using False hi pi_gt_zero by linarith+
  have "sin ?a = sin th" and "cos ?a = cos th"
    by (simp_all add: sin_diff cos_diff)
  with atan2_polar[OF k a] False show ?thesis by simp
qed

lemma renormalize:
  assumes "length3 v = r" and "0 < r"
  shows "multiplyScalar (normalize3 v) r = v"
  using assms by (cases v) (simp add: normalize3_def multiplyScalar_def)

text \<open>
  What the round trip returns away from the poles: the latitude, and the longitude itself
  up to Greenwich, the longitude minus \<open>360\<close> east of it.
\<close>

lemma round_trip_general:
  assumes la: "- 90 < la" "la < 90" and lo: "- 180 \<le> lo" "lo \<le> 180" and r: "0 < r"
  shows "vector3ToLatLng (latLngToVector3 la lo (Some r)) (Some r)
       = \<lparr>lat = Num la, lng = Num (if lo \<le> 0 then lo else lo - 360)\<rparr>"
proof -
  let ?phi = "(90 - la) * (pi / 180)" and ?theta = "(lo + 180) * (pi / 180)"
  let ?v = "latLngToVector3 la lo (Some r)"
  have v: "?v = Vector3 (- (r * sin ?phi * cos ?theta)) (r * cos ?phi) (r * sin ?phi * sin ?theta)"
    by (simp only: latLngToVector3_def Let_def orDefault_def option.case)
  have "length3 ?v = r" using r by (intro length3_latLngToVector3) simp
  then have n: "multiplyScalar (normalize3 ?v) r = ?v" using r by (rule renormalize)
  have phi_eq: "?phi = pi * ((90 - la) / 180)" by simp
  have theta_eq: "?theta = pi * ((lo + 180) / 180)" by simp
  have "0 < (90 - la) / 180" using la by simp
  with pi_gt_zero have "0 < pi * ((90 - la) / 180)" by (rule mult_pos_pos)
  moreover have "(90 - la) / 180 < 1" using la by simp
  then have "pi * ((90 - la) / 180) < pi * 1" using pi_gt_zero by (rule mult_strict_left_mono)
  ultimately have phi: "0 < ?phi" "?phi < pi" unfolding phi_eq by simp_all
  have "0 \<le> (lo + 180) / 180" using lo by simp
  with pi_ge_zero have "0 \<le> pi * ((lo + 180) / 180)" by (rule mult_nonneg_nonneg)
  moreover have "(lo + 180) / 180 \<le> 2" using lo by simp
  then have "pi * ((lo + 180) / 180) \<le> pi * 2" using pi_ge_zero by (rule mult_left_mono)
  ultimately have theta: "0 \<le> ?theta" "?theta \<le> 2 * pi" unfolding theta_eq by simp_all
  have "0 < sin ?phi" using phi by (rule sin_gt_zero)
  with r have k: "0 < r * sin ?phi" by simp
  have "arccos (cos ?phi) = ?phi" using phi by (intro arccos_cos) simp_all
  then have latv: "jsub (Num 90) (jdiv (jmul (jacos (jdiv (Num (r * cos ?phi)) (Num r))) (Num 180)) (Num pi))
      = Num la"
    using r by (simp add: jsub_def jmul_def not_less)
  have "atan2 (r * sin ?phi * sin ?theta) (r * sin ?phi * cos ?theta)
      = (if ?theta \<le> pi then ?theta else ?theta - 2 * pi)"
    using k theta by (rule atan2_wrapped)
  moreover have "?theta \<le> pi \<longleftrightarrow> lo \<le> 0"
  proof -
    have "?theta \<le> pi \<longleftrightarrow> pi * ((lo + 180) / 180) \<le> pi * 1"
      unfolding theta_eq by simp
    also have "\<dots> \<longleftrightarrow> (lo + 180) / 180 \<le> 1"
      using pi_gt_zero by (rule mult_le_cancel_left_pos)
    also have "\<dots> \<longleftrightarrow> lo \<le> 0" by simp
    finally show ?thesis .
  qed
  ultimately have lngv: "atan2 (r * sin ?phi * sin ?theta) (- (- (r * sin ?phi * cos ?theta))) * 180 / pi - 180
      = (if lo \<le> 0 then lo else lo - 360)"
    by (simp add: field_simps)
  show ?thesis
    unfolding vector3ToLatLng_def Let_def orDefault_def option.case n
    unfolding v Vector3.sel latv lngv ..
qed

lemma vector_at_0_90: "latLngToVector3 0 90 (Some 5) = Vector3 0 0 (- 5)"
proof -
  have phi: "(90 - 0) * (pi / 180) = pi / 2" by simp
  have theta: "(90 + 180) * (pi / 180) = 3 / 2 * pi" by simp
  have c: "cos (3 * pi / 2) = 0"
    using cos_3over2_pi by (simp only: times_divide_eq_left)
  have s: "sin (3 * pi / 2) = - 1"
    using sin_3over2_pi by (simp only: times_divide_eq_left)
  show ?thesis
    unfolding latLngToVector3_def Let_def orDefault_def option.case phi theta
    by (simp add: c s)
qed

text \<open>
  C1 fails on the code for every longitude east of Greenwich. \<open>Math.atan2\<close> returns an
  angle in \<open>(-\<pi>, \<pi>]\<close>, the angle \<open>theta\<close> of the projection runs over \<open>[0, 2\<pi>]\<close>, and
  \<open>vector3ToLatLng\<close> subtracts \<open>180\<close> without bringing the angle back into that range.
  At latitude \<open>0\<close>, longitude \<open>90\<close> and radius \<open>5\<close> the round trip returns longitude
  \<open>-270\<close>.
\<close>

theorem round_trip_east_fails:
  "vector3ToLatLng (latLngToVector3 0 90 (Some 5)) (Some 5) = \<lparr>lat = Num 0, lng = Num (- 270)\<rparr>"
proof -
  have n: "multiplyScalar (normalize3 (Vector3 0 0 (- 5))) 5 = Vector3 0 0 (- 5)"
    by (simp add: normalize3_def length3_def multiplyScalar_def)
  have a: "atan2 (- 5) (- 0) = - (pi / 2)"
    by (simp add: atan2_def)
  show ?thesis
    unfolding vector_at_0_90 vector3ToLatLng_def Let_def orDefault_def option.case n Vector3.sel a
    by (simp add: jsub_def jmul_def)
qed

subsection \<open>Points between two coordinates\<close>

lemma getIntermediatePoints_length:
  "getIntermediatePoints start end' numPoints' = Inr points
     \<Longrightarrow> length points = orDefault numPoints' 10 + 1"
  by (auto simp: getIntermediatePoints_def Let_def split: if_splits)

lemma intermediatePoint_zero_distance:
  "intermediatePoint lat1 lng1 lat2 lng2 (Num 0) numPoints i = \<lparr>latitude = NaN, longitude = NaN\<rparr>"
  by (simp add: intermediatePoint_def Let_def jsin_def jmul_def jadd_def jatan2_def)

text \<open>
  C4 fails on the code. \<open>getIntermediatePoints\<close> divides by \<open>Math.sin(d)\<close> with no guard.
  For \<open>start = end\<close> the distance \<open>d\<close> is \<open>0\<close>, both weights are \<open>0 / 0\<close>, and every one
  of the \<open>n + 1\<close> points has \<open>NaN\<close> for its latitude and its longitude; \<open>start\<close> is not
  repeated.
\<close>

theorem getIntermediatePoints_same_point:
  assumes "isValidCoordinate (latitude start) (longitude start)"
  shows "getIntermediatePoints start start (Some n)
           = Inr (replicate (n + 1) \<lparr>latitude = NaN, longitude = NaN\<rparr>)"
proof -
  have d: "jmul (Num 2) (jasin (jsqrt (Num (
       (sin ((latitude start * pi / 180 - latitude start * pi / 180) / 2)) ^ 2
       + cos (latitude start * pi / 180) * cos (latitude start * pi / 180)
         * (sin ((longitude start * pi / 180 - longitude start * pi / 180) / 2)) ^ 2)))) = Num 0"
    by (simp add: jmul_def)
  have "map (intermediatePoint lat1 lng1 lat2 lng2 (Num 0) m) [0 ..< Suc n]
      = replicate (n + 1) \<lparr>latitude = NaN, longitude = NaN\<rparr>" for lat1 lng1 lat2 lng2 m
  proof -
    have "map (intermediatePoint lat1 lng1 lat2 lng2 (Num 0) m) [0 ..< Suc n]
        = map (\<lambda>i. \<lparr>latitude = NaN, longitude = NaN\<rparr>) [0 ..< Suc n]"
      by (rule map_cong) (simp_all add: intermediatePoint_zero_distance)
    also have "\<dots> = replicate (n + 1) \<lparr>latitude = NaN, longitude = NaN\<rparr>"
      by (simp only: map_replicate_const length_upt) simp
    finally show ?thesis .
  qed
  with assms show ?thesis
    unfolding getIntermediatePoints_def Let_def orDefault_def option.case d by simp
qed

theorem getIntermediatePoints_same_point_witness:
  "isValidCoordinate (35.6895) (139.6917)
   \<and> getIntermediatePoints \<lparr>latitude = 35.6895, longitude = 139.6917\<rparr>
        \<lparr>latitude = 35.6895, longitude = 139.6917\<rparr> (Some 2)
      = Inr [\<lparr>latitude = NaN, longitude = NaN\<rparr>, \<lparr>latitude = NaN, longitude = NaN\<rparr>,
             \<lparr>latitude = NaN, longitude = NaN\<rparr>]"
proof -
  have v: "isValidCoordinate (latitude \<lparr>latitude = 35.6895, longitude = 139.6917\<rparr>)
             (longitude \<lparr>latitude = 35.6895, longitude = 139.6917 :: real\<rparr>)"
    by (simp add: isValidCoordinate_def)
  from getIntermediatePoints_same_point[OF v, of 2] v show ?thesis
    by (simp add: numeral_3_eq_3)
qed

end
